theory Spec2Isabelle
  imports Main "HOL-Library.Multiset" "HOL-Library.AList"
begin

section \<open>Strings and regular-expression replacement\<close>

text \<open>
  A JavaScript string is a sequence of UTF-16 code units; \<open>length\<close>, \<open>substring\<close>,
  \<open>slice\<close> and the regular expressions below all count code units. The model writes a
  string as a \<open>char list\<close>, one \<open>char\<close> for one code unit (the code units 0 to 255).
\<close>

definition backslash :: char where
  "backslash = CHR 0x5C"

definition backtick :: char where
  "backtick = CHR 0x60"

definition newline :: char where
  "newline = CHR 0x0A"

definition carriage_return :: char where
  "carriage_return = CHR 0x0D"

text \<open>\<open>[\w]\<close>: ASCII letters, digits and the underscore.\<close>

definition isWordChar :: "char \<Rightarrow> bool" where
  "isWordChar c =
     (let n = (of_char c :: nat)
      in (97 \<le> n \<and> n \<le> 122) \<or> (65 \<le> n \<and> n \<le> 90) \<or> (48 \<le> n \<and> n \<le> 57) \<or> n = 95)"

text \<open>\<open>\s\<close> (and what \<open>trim\<close> strips): tab, line feed, vertical tab, form feed,
  carriage return, space and the no-break space.\<close>

definition isSpace :: "char \<Rightarrow> bool" where
  "isSpace c = (c \<in> set [CHR 0x09, CHR 0x0A, CHR 0x0B, CHR 0x0C, CHR 0x0D, CHR 0x20, CHR 0xA0])"

text \<open>A line terminator: what \<open>.\<close> refuses and where \<open>$\<close> and \<open>^\<close> hold under the \<open>m\<close> flag.\<close>

definition isLineTerminator :: "char \<Rightarrow> bool" where
  "isLineTerminator c = (c = CHR 0x0A \<or> c = CHR 0x0D)"

definition startsWith :: "string \<Rightarrow> string \<Rightarrow> bool" where
  "startsWith s p = (take (length p) s = p)"

definition endsWith :: "string \<Rightarrow> string \<Rightarrow> bool" where
  "endsWith s p = (length p \<le> length s \<and> drop (length s - length p) s = p)"

definition trim :: "string \<Rightarrow> string" where
  "trim s = rev (dropWhile isSpace (rev (dropWhile isSpace s)))"

text \<open>
  \<open>s.replace(re, rep)\<close> with the \<open>g\<close> flag, for a regular expression that never matches
  the empty string: the scan goes left to right; \<open>m s\<close> is \<open>Some (rep, n)\<close> when the
  expression matches at the start of \<open>s\<close>, consuming \<open>Suc n\<close> code units that \<open>rep\<close>
  replaces, and the scan resumes after the match; otherwise the code unit is kept.
\<close>

fun replaceAll :: "(string \<Rightarrow> (string \<times> nat) option) \<Rightarrow> string \<Rightarrow> string" where
  "replaceAll m [] = []"
| "replaceAll m (c # cs) =
     (case m (c # cs) of
        Some (rep, n) \<Rightarrow> rep @ replaceAll m (drop n cs)
      | None \<Rightarrow> c # replaceAll m cs)"

text \<open>\<open>/\\/g\<close>: one backslash.\<close>

definition matchBackslash :: "string \<Rightarrow> string \<Rightarrow> (string \<times> nat) option" where
  "matchBackslash rep s =
     (case s of [] \<Rightarrow> None | c # cs \<Rightarrow> if c = backslash then Some (rep, 0) else None)"

text \<open>\<open>/\([^)]+\)\/?/g\<close>: an opening parenthesis, one or more code units other than
  the closing one, the closing parenthesis, and a slash when one follows.\<close>

definition matchRouteGroup :: "string \<Rightarrow> (string \<times> nat) option" where
  "matchRouteGroup s =
     (case s of
        [] \<Rightarrow> None
      | c # cs \<Rightarrow>
          if c = CHR ''('' then
            (let body = takeWhile (\<lambda>x. x \<noteq> CHR '')'') cs;
                 rest = dropWhile (\<lambda>x. x \<noteq> CHR '')'') cs
             in if body \<noteq> [] \<and> rest \<noteq> []
                then Some ([], length body + 1 + (if startsWith (tl rest) ''/'' then 1 else 0))
                else None)
          else None)"

text \<open>\<open>/\[\[\.\.\.([\w]+)\]\]/g\<close> with the replacement \<open>:$1\<close>.\<close>

definition matchOptionalCatchAll :: "string \<Rightarrow> (string \<times> nat) option" where
  "matchOptionalCatchAll s =
     (if startsWith s ''[[...'' then
        (let name = takeWhile isWordChar (drop 5 s);
             rest = dropWhile isWordChar (drop 5 s)
         in if name \<noteq> [] \<and> startsWith rest '']]''
            then Some (CHR '':'' # name, length name + 6)
            else None)
      else None)"

text \<open>\<open>/\[\.\.\.([\w]+)\]/g\<close> with the replacement \<open>*\<close>.\<close>

definition matchCatchAll :: "string \<Rightarrow> (string \<times> nat) option" where
  "matchCatchAll s =
     (if startsWith s ''[...'' then
        (let name = takeWhile isWordChar (drop 4 s);
             rest = dropWhile isWordChar (drop 4 s)
         in if name \<noteq> [] \<and> startsWith rest '']''
            then Some (''*'', length name + 4)
            else None)
      else None)"

text \<open>\<open>/\[([^\]]+)\]/g\<close> with the replacement \<open>:$1\<close>.\<close>

definition matchDynamic :: "string \<Rightarrow> (string \<times> nat) option" where
  "matchDynamic s =
     (case s of
        [] \<Rightarrow> None
      | c # cs \<Rightarrow>
          if c = CHR ''['' then
            (let body = takeWhile (\<lambda>x. x \<noteq> CHR '']'') cs;
                 rest = dropWhile (\<lambda>x. x \<noteq> CHR '']'') cs
             in if body \<noteq> [] \<and> rest \<noteq> []
                then Some (CHR '':'' # body, length body + 1)
                else None)
          else None)"

section \<open>Scanner: URL derivation\<close>

definition removeRouteGroups :: "string \<Rightarrow> string" where
  "removeRouteGroups s = replaceAll matchRouteGroup s"

text \<open>\<open>filePathToUrlPath\<close> of the scanner.\<close>

definition filePathToUrlPath :: "string \<Rightarrow> string" where
  "filePathToUrlPath filePath =
     (let urlPath = replaceAll (matchBackslash ''/'') filePath;
          urlPath = removeRouteGroups urlPath;
          urlPath = replaceAll matchOptionalCatchAll urlPath;
          urlPath = replaceAll matchCatchAll urlPath;
          urlPath = replaceAll matchDynamic urlPath;
          urlPath = (if \<not> startsWith urlPath ''/'' then ''/'' @ urlPath else urlPath)
      in if urlPath = ''/'' \<or> urlPath = [] then ''/'' else urlPath)"






section \<open>Data model\<close>

text \<open>\<open>RouteInfo\<close>, \<open>RouteMetadata\<close>, \<open>Heading\<close>, \<open>ContentSource\<close> and the options, as
  \<open>types.ts\<close> declares them; an optional field is an \<open>option\<close>.\<close>

datatype routeType = Page | Layout | Route

record openGraph =
  og_title :: "string option"
  og_description :: "string option"
  og_url :: "string option"
  og_type :: "string option"

record routeMetadata =
  md_title :: "string option"
  md_description :: "string option"
  md_keywords :: "string list option"
  md_openGraph :: "openGraph option"

record heading =
  level :: nat
  htext :: string

record routeInfo =
  filePath :: string
  urlPath :: string
  rtype :: routeType
  metadata :: "routeMetadata option"
  content :: "string option"
  headings :: "heading list option"

datatype priority = High | Medium | Low

record contentSource =
  cs_section :: string
  cs_pattern :: string
  cs_priority :: "priority option"
  cs_description :: "string option"

record customSectionItem =
  item_title :: string
  item_url :: string
  item_description :: "string option"

record customSection =
  sec_title :: string
  sec_items :: "customSectionItem list"
  sec_description :: "string option"

record perPageOptions =
  pp_includeMetadata :: "bool option"
  pp_includePatterns :: "string list option"
  pp_excludePatterns :: "string list option"

record contentOptions =
  maxContentLength :: "int option"

record customLLMFile =
  cf_filename :: string
  cf_title :: string
  cf_description :: string
  cf_includePatterns :: "string list"
  cf_fullContent :: "bool option"
  cf_excludePatterns :: "string list option"

record pluginOptions =
  opt_title :: "string option"
  opt_description :: "string option"
  siteUrl :: "string option"
  appDir :: "string option"
  excludePatterns :: "string list option"
  sources :: "contentSource list option"
  customSections :: "customSection list option"
  perPageOpts :: "perPageOptions option"
  generatePerPageMarkdown :: "bool option"

text \<open>
  The syntax tree of a page as the content processor reads it: the nodes that
  \<open>traverse\<close> visits, in its order. A string literal carries its value, a template
  literal the cooked value of each quasi (absent for an invalid escape), a JSX text its
  value, a JSX element its tag name when the tag is a plain identifier and its children.
\<close>

datatype jsxChild = ChildText string | ChildOther

datatype astNode =
    StringLiteral string
  | TemplateLiteral "string option list"
  | JSXText string
  | JSXElement "string option" "jsxChild list"

text \<open>
  What the code takes from its host and its libraries: the working directory
  (\<open>process.cwd()\<close>), the glob matcher \<open>minimatch(path, pattern)\<close>, the collation
  \<open>String.prototype.localeCompare\<close>, \<open>String.prototype.toUpperCase\<close>, and the Babel
  parser with its traversal: \<open>parseAndTraverse h src\<close> is \<open>None\<close> when \<open>parse\<close> throws.
\<close>

record host =
  cwd :: string
  minimatch :: "string \<Rightarrow> string \<Rightarrow> bool"
  localeCompare :: "string \<Rightarrow> string \<Rightarrow> int"
  toUpperCase :: "string \<Rightarrow> string"
  parseAndTraverse :: "string \<Rightarrow> astNode list option"

text \<open>The file system: what is at an absolute path. A directory holds its entries in
  the order \<open>readdirSync\<close> lists them, each subdirectory with its own entries.\<close>

datatype dirent = FileEntry string | DirEntry string "dirent list" | OtherEntry string

datatype fsObject = RegularFile string | Directory "dirent list"

type_synonym fileSystem = "string \<Rightarrow> fsObject option"

datatype jsError = ReferenceError string | ENOENT | ENOTDIR | EISDIR

definition existsSync :: "fileSystem \<Rightarrow> string \<Rightarrow> bool" where
  "existsSync fs p = (fs p \<noteq> None)"

definition readFileSync :: "fileSystem \<Rightarrow> string \<Rightarrow> jsError + string" where
  "readFileSync fs p =
     (case fs p of None \<Rightarrow> Inl ENOENT | Some (RegularFile c) \<Rightarrow> Inr c | Some (Directory es) \<Rightarrow> Inl EISDIR)"


section \<open>More string operations\<close>

text \<open>\<open>s.replace(pat, rep)\<close> with a string pattern: the first occurrence only.\<close>

fun replaceFirst :: "string \<Rightarrow> string \<Rightarrow> string \<Rightarrow> string" where
  "replaceFirst pat rep [] = (if pat = [] then rep else [])"
| "replaceFirst pat rep (c # cs) =
     (if startsWith (c # cs) pat then rep @ drop (length pat) (c # cs)
      else c # replaceFirst pat rep cs)"

text \<open>\<open>s.includes(sub)\<close>.\<close>

fun str_includes :: "string \<Rightarrow> string \<Rightarrow> bool" where
  "str_includes [] sub = (sub = [])"
| "str_includes (c # cs) sub = (startsWith (c # cs) sub \<or> str_includes cs sub)"

text \<open>\<open>s.replace(/^\//, '')\<close>: one leading slash.\<close>

definition stripLeadingSlash :: "string \<Rightarrow> string" where
  "stripLeadingSlash s = (if startsWith s ''/'' then tl s else s)"

text \<open>\<open>s.replace(/\/$/, '')\<close>: one trailing slash.\<close>

definition stripTrailingSlash :: "string \<Rightarrow> string" where
  "stripTrailingSlash s = (if endsWith s ''/'' then butlast s else s)"

text \<open>\<open>parts.join(sep)\<close> and \<open>s.split(sep)\<close> for a one-unit separator.\<close>

fun join :: "string \<Rightarrow> string list \<Rightarrow> string" where
  "join sep [] = []"
| "join sep [x] = x"
| "join sep (x # y # ys) = x @ sep @ join sep (y # ys)"

fun split :: "char \<Rightarrow> string \<Rightarrow> string list" where
  "split sep [] = [[]]"
| "split sep (c # cs) =
     (if c = sep then [] # split sep cs
      else (case split sep cs of [] \<Rightarrow> [[c]] | x # xs \<Rightarrow> (c # x) # xs))"

text \<open>The path of a route's file relative to the working directory, as the scanner and
  the per-page generator compute it before glob matching.\<close>

definition relativeToCwd :: "host \<Rightarrow> string \<Rightarrow> string" where
  "relativeToCwd h fp = stripLeadingSlash (replaceFirst (cwd h) [] fp)"

text \<open>The match the scanner and the per-page generator use: the pattern itself, or the
  pattern behind \<open>**/\<close>.\<close>

definition globMatch :: "host \<Rightarrow> string \<Rightarrow> string \<Rightarrow> bool" where
  "globMatch h relativePath pat =
     (minimatch h relativePath pat \<or> minimatch h relativePath (''**/'' @ pat))"

section \<open>Scanner: grouping and ordering\<close>

text \<open>A JavaScript \<open>Map\<close> with string keys is an association list with distinct keys in
  insertion order: \<open>set\<close> is \<open>AList.update\<close>, which keeps the place of a key it already
  holds, \<open>get\<close> is \<open>map_of\<close>.\<close>

definition mapPush :: "string \<Rightarrow> 'a \<Rightarrow> (string \<times> 'a list) list \<Rightarrow> (string \<times> 'a list) list" where
  "mapPush k r m = (case map_of m k of None \<Rightarrow> m | Some rs \<Rightarrow> AList.update k (rs @ [r]) m)"

definition removeEmptySections :: "(string \<times> 'a list) list \<Rightarrow> (string \<times> 'a list) list" where
  "removeEmptySections m = filter (\<lambda>(k, rs). rs \<noteq> []) m"

definition sourcesOf :: "pluginOptions \<Rightarrow> contentSource list" where
  "sourcesOf options = (case sources options of None \<Rightarrow> [] | Some srcs \<Rightarrow> srcs)"

text \<open>\<open>groupRoutesBySection\<close> of the scanner. The inner loop stops at the first source
  whose pattern matches.\<close>

definition scannerMatches :: "host \<Rightarrow> routeInfo \<Rightarrow> contentSource \<Rightarrow> bool" where
  "scannerMatches h route source = globMatch h (relativeToCwd h (filePath route)) (cs_pattern source)"

definition assignRoute ::
  "host \<Rightarrow> pluginOptions \<Rightarrow> (string \<times> routeInfo list) list \<Rightarrow> routeInfo \<Rightarrow> (string \<times> routeInfo list) list" where
  "assignRoute h options sections route =
     (case find (scannerMatches h route) (sourcesOf options) of
        Some source \<Rightarrow> mapPush (cs_section source) route sections
      | None \<Rightarrow> mapPush ''Pages'' route sections)"

definition groupRoutesBySection ::
  "host \<Rightarrow> routeInfo list \<Rightarrow> pluginOptions \<Rightarrow> (string \<times> routeInfo list) list" where
  "groupRoutesBySection h routes options =
     (let sections = AList.update ''Pages'' [] [];
          sections = foldl (\<lambda>m source. AList.update (cs_section source) [] m) sections (sourcesOf options);
          sections = foldl (assignRoute h options) sections routes
      in removeEmptySections sections)"

text \<open>\<open>sortRoutesByPriority\<close>. The comparator walks all the sources without stopping, so
  the last source whose pattern matches decides a route's rank.\<close>

definition priorityMap :: "priority \<Rightarrow> int" where
  "priorityMap p = (case p of High \<Rightarrow> 3 | Medium \<Rightarrow> 2 | Low \<Rightarrow> 1)"

definition routePriority :: "host \<Rightarrow> pluginOptions \<Rightarrow> routeInfo \<Rightarrow> int" where
  "routePriority h options a =
     foldl (\<lambda>aPriority source.
              if scannerMatches h a source
              then priorityMap (case cs_priority source of None \<Rightarrow> Medium | Some p \<Rightarrow> p)
              else aPriority)
           2 (sourcesOf options)"

definition compareRoutes :: "host \<Rightarrow> pluginOptions \<Rightarrow> routeInfo \<Rightarrow> routeInfo \<Rightarrow> int" where
  "compareRoutes h options a b =
     (let aPriority = routePriority h options a;
          bPriority = routePriority h options b
      in if aPriority \<noteq> bPriority then bPriority - aPriority
         else localeCompare h (urlPath a) (urlPath b))"

text \<open>\<open>Array.prototype.sort(compare)\<close> is stable: elements that compare equal keep their
  order. Insertion from the right, each element placed before the first one it does not
  follow, is that sort.\<close>

fun insertSorted :: "('a \<Rightarrow> 'a \<Rightarrow> int) \<Rightarrow> 'a \<Rightarrow> 'a list \<Rightarrow> 'a list" where
  "insertSorted cmp x [] = [x]"
| "insertSorted cmp x (y # ys) = (if cmp x y \<le> 0 then x # y # ys else y # insertSorted cmp x ys)"

fun arraySort :: "('a \<Rightarrow> 'a \<Rightarrow> int) \<Rightarrow> 'a list \<Rightarrow> 'a list" where
  "arraySort cmp [] = []"
| "arraySort cmp (x # xs) = insertSorted cmp x (arraySort cmp xs)"

definition sortRoutesByPriority :: "host \<Rightarrow> routeInfo list \<Rightarrow> pluginOptions \<Rightarrow> routeInfo list" where
  "sortRoutesByPriority h routes options = arraySort (compareRoutes h options) routes"

text \<open>The section and the rank the specification gives a route: those of the first
  source it matches, \<open>Pages\<close> and medium when it matches none.\<close>

definition sectionOf :: "(routeInfo \<Rightarrow> contentSource \<Rightarrow> bool) \<Rightarrow> contentSource list \<Rightarrow> routeInfo \<Rightarrow> string" where
  "sectionOf matches srcs route =
     (case find (matches route) srcs of Some source \<Rightarrow> cs_section source | None \<Rightarrow> ''Pages'')"

text \<open>A comparison function is consistent when it is a total preorder read through its
  sign, what \<open>sort\<close> requires of it.\<close>

definition consistentCompare :: "('a \<Rightarrow> 'a \<Rightarrow> int) \<Rightarrow> bool" where
  "consistentCompare cmp =
     ((\<forall>a. cmp a a = 0) \<and> (\<forall>a b. (cmp a b < 0) = (cmp b a > 0)) \<and>
      (\<forall>a b c. cmp a b \<le> 0 \<and> cmp b c \<le> 0 \<longrightarrow> cmp a c \<le> 0))"

text \<open>Comparison of strings by code units, one consistent comparison.\<close>

fun codeUnitCompare :: "string \<Rightarrow> string \<Rightarrow> int" where
  "codeUnitCompare [] [] = 0"
| "codeUnitCompare [] (y # ys) = -1"
| "codeUnitCompare (x # xs) [] = 1"
| "codeUnitCompare (x # xs) (y # ys) =
     (if (of_char x :: nat) < of_char y then -1
      else if (of_char y :: nat) < of_char x then 1
      else codeUnitCompare xs ys)"

section \<open>Metadata accessors\<close>

text \<open>A string used as a condition: \<open>undefined\<close> and the empty string are false.\<close>

definition truthy :: "string option \<Rightarrow> bool" where
  "truthy v = (case v of None \<Rightarrow> False | Some s \<Rightarrow> s \<noteq> [])"

text \<open>\<open>title.replace(/\s*\|.*$/, '')\<close>: the leftmost place where white space, a pipe
  and a rest free of line terminators run to the end of the string is cut off.\<close>

definition titleSuffixAt :: "string \<Rightarrow> bool" where
  "titleSuffixAt s =
     (case dropWhile isSpace s of
        [] \<Rightarrow> False
      | d # rest \<Rightarrow> d = CHR ''|'' \<and> \<not> list_ex isLineTerminator rest)"

fun stripTitleSuffix :: "string \<Rightarrow> string" where
  "stripTitleSuffix [] = []"
| "stripTitleSuffix (c # cs) = (if titleSuffixAt (c # cs) then [] else c # stripTitleSuffix cs)"

definition capitalize :: "host \<Rightarrow> string \<Rightarrow> string" where
  "capitalize h word = toUpperCase h (take 1 word) @ drop 1 word"

definition metadataTitle :: "routeInfo \<Rightarrow> string option" where
  "metadataTitle route = (case metadata route of None \<Rightarrow> None | Some m \<Rightarrow> md_title m)"

definition openGraphOf :: "routeInfo \<Rightarrow> openGraph option" where
  "openGraphOf route = (case metadata route of None \<Rightarrow> None | Some m \<Rightarrow> md_openGraph m)"

definition getBestTitle :: "host \<Rightarrow> routeInfo \<Rightarrow> string" where
  "getBestTitle h route =
     (if truthy (metadataTitle route) then trim (stripTitleSuffix (the (metadataTitle route)))
      else if truthy (case openGraphOf route of None \<Rightarrow> None | Some og \<Rightarrow> og_title og)
      then the (og_title (the (openGraphOf route)))
      else (let segments = filter (\<lambda>s. length s > 0) (split CHR ''/'' (urlPath route))
            in if length segments = 0 then ''Home''
               else join '' '' (map (capitalize h) (split CHR ''-'' (last segments)))))"

definition getBestDescription :: "routeInfo \<Rightarrow> string option" where
  "getBestDescription route =
     (if truthy (case metadata route of None \<Rightarrow> None | Some m \<Rightarrow> md_description m)
      then md_description (the (metadata route))
      else if truthy (case openGraphOf route of None \<Rightarrow> None | Some og \<Rightarrow> og_description og)
      then og_description (the (openGraphOf route))
      else None)"

section \<open>Content formatting\<close>

text \<open>\<open>formatContentForLLM\<close> of the content processor.\<close>

definition formatContentForLLM :: "routeInfo \<Rightarrow> string" where
  "formatContentForLLM route =
     (let parts = (case headings route of
                     None \<Rightarrow> []
                   | Some hs \<Rightarrow> map (\<lambda>hdg. replicate (level hdg) CHR ''#'' @ '' '' @ htext hdg) hs);
          parts = (if truthy (content route) then parts @ [the (content route)] else parts)
      in join [newline, newline] parts)"

section \<open>Generator\<close>

text \<open>\<open>buildUrl\<close> of the generator.\<close>

definition buildUrl :: "string \<Rightarrow> string option \<Rightarrow> string" where
  "buildUrl url site =
     (if \<not> truthy site then url
      else (let baseUrl = stripTrailingSlash (the site);
                path = (if startsWith url ''/'' then url else ''/'' @ url)
            in baseUrl @ path))"

text \<open>\<open>groupBySection\<close> of the generator: a source matches a route when the route's file
  path contains the pattern with its first \<open>**\<close> removed.\<close>

definition generatorMatches :: "routeInfo \<Rightarrow> contentSource \<Rightarrow> bool" where
  "generatorMatches route source =
     str_includes (filePath route) (replaceFirst ''**'' [] (cs_pattern source))"

definition pushOrCreate :: "string \<Rightarrow> 'a \<Rightarrow> (string \<times> 'a list) list \<Rightarrow> (string \<times> 'a list) list" where
  "pushOrCreate k r m =
     AList.update k ((case map_of m k of None \<Rightarrow> [] | Some rs \<Rightarrow> rs) @ [r]) m"

definition assignBySection ::
  "pluginOptions \<Rightarrow> (string \<times> routeInfo list) list \<Rightarrow> routeInfo \<Rightarrow> (string \<times> routeInfo list) list" where
  "assignBySection options sections route =
     (case find (generatorMatches route) (sourcesOf options) of
        Some source \<Rightarrow> pushOrCreate (cs_section source) route sections
      | None \<Rightarrow> pushOrCreate ''Pages'' route sections)"

definition groupBySection :: "routeInfo list \<Rightarrow> pluginOptions \<Rightarrow> (string \<times> routeInfo list) list" where
  "groupBySection routes options =
     (let sections = foldl (\<lambda>m source. AList.update (cs_section source) [] m) [] (sourcesOf options);
          sections = (if map_of sections ''Pages'' = None then AList.update ''Pages'' [] sections
                      else sections);
          sections = foldl (assignBySection options) sections routes
      in removeEmptySections sections)"

definition documentTitle :: "pluginOptions \<Rightarrow> string" where
  "documentTitle options = (if truthy (opt_title options) then the (opt_title options) else ''Documentation'')"

definition headerLines :: "pluginOptions \<Rightarrow> string list" where
  "headerLines options =
     [''# '' @ documentTitle options, []] @
     (if truthy (opt_description options) then [''> '' @ the (opt_description options), []] else [])"

text \<open>The lines \<open>generateLLMsFullTxt\<close> pushes for one route, for one section, for one
  custom item and for one custom section.\<close>

definition fullRouteLines :: "host \<Rightarrow> pluginOptions \<Rightarrow> routeInfo \<Rightarrow> string list" where
  "fullRouteLines h options route =
     (let title = getBestTitle h route;
          url = buildUrl (urlPath route) (siteUrl options);
          description = getBestDescription route
      in [''### '' @ title, [], ''URL: '' @ url, []] @
         (if truthy description then [the description, []] else []) @
         (if truthy (content route) then [formatContentForLLM route, []] else []) @
         [''---'', []])"

definition fullSectionLines ::
  "host \<Rightarrow> pluginOptions \<Rightarrow> string \<times> routeInfo list \<Rightarrow> string list" where
  "fullSectionLines h options sec =
     [''## '' @ fst sec, []] @ concat (map (fullRouteLines h options) (snd sec))"

definition fullItemLines :: "customSectionItem \<Rightarrow> string list" where
  "fullItemLines item =
     [''### '' @ item_title item, [], ''URL: '' @ item_url item, []] @
     (if truthy (item_description item) then [the (item_description item), []] else []) @
     [''---'', []]"

definition customSectionHead :: "customSection \<Rightarrow> string list" where
  "customSectionHead sec =
     [''## '' @ sec_title sec, []] @
     (if truthy (sec_description sec) then [the (sec_description sec), []] else [])"

definition customSectionsOf :: "pluginOptions \<Rightarrow> customSection list" where
  "customSectionsOf options = (case customSections options of None \<Rightarrow> [] | Some cs \<Rightarrow> cs)"

definition aggregationNotice :: string where
  "aggregationNotice =
     ''This file contains all documentation content in a single document following the llmstxt.org standard.''"

definition generateLLMsFullTxt :: "host \<Rightarrow> routeInfo list \<Rightarrow> pluginOptions \<Rightarrow> string" where
  "generateLLMsFullTxt h routes options =
     (let parts = headerLines options @ [aggregationNotice, [], ''---'', []];
          sections = groupBySection routes options;
          parts = parts @ concat (map (fullSectionLines h options) sections);
          parts = parts @ concat (map (\<lambda>sec. customSectionHead sec @ concat (map fullItemLines (sec_items sec)))
                                   (customSectionsOf options))
      in join [newline] parts)"

text \<open>The lines of \<open>generateLLMsTxt\<close>, the link index.\<close>

definition linkLine :: "string \<Rightarrow> string \<Rightarrow> string option \<Rightarrow> string" where
  "linkLine title url description =
     (if truthy description then ''- ['' @ title @ '']('' @ url @ ''): '' @ the description
      else ''- ['' @ title @ '']('' @ url @ '')'')"

definition indexSectionLines ::
  "host \<Rightarrow> pluginOptions \<Rightarrow> string \<times> routeInfo list \<Rightarrow> string list" where
  "indexSectionLines h options sec =
     [''## '' @ fst sec, []] @
     map (\<lambda>route. linkLine (getBestTitle h route) (buildUrl (urlPath route) (siteUrl options))
                     (getBestDescription route)) (snd sec) @
     [[]]"

definition generateLLMsTxt :: "host \<Rightarrow> routeInfo list \<Rightarrow> pluginOptions \<Rightarrow> string" where
  "generateLLMsTxt h routes options =
     (let parts = headerLines options;
          sections = groupBySection routes options;
          parts = parts @ concat (map (indexSectionLines h options) sections);
          parts = parts @ concat (map (\<lambda>sec. customSectionHead sec @
                                      map (\<lambda>item. linkLine (item_title item) (item_url item) (item_description item))
                                          (sec_items sec) @ [[]])
                                   (customSectionsOf options))
      in join [newline] parts)"

text \<open>\<open>generateRouteHandlerFile\<close>: the document text goes into a template literal with
  its backticks escaped, and nothing else.\<close>

definition quote :: char where
  "quote = CHR 0x27"

definition handlerHead :: string where
  "handlerHead =
     ''export const dynamic = '' @ [quote] @ ''force-static'' @ [quote] @ '';'' @ [newline, newline] @
     ''export function GET() {'' @ [newline] @
     ''  const markdown = '' @ [backtick]"

definition handlerTail :: "string \<Rightarrow> string" where
  "handlerTail contentType =
     [backtick] @ '';'' @ [newline, newline] @
     ''  return new Response(markdown, {'' @ [newline] @
     ''    headers: {'' @ [newline] @
     ''      '' @ [quote] @ ''Content-Type'' @ [quote] @ '': '' @ [quote] @ contentType @ [quote] @ '','' @ [newline] @
     ''    },'' @ [newline] @
     ''  });'' @ [newline] @
     ''}'' @ [newline]"

definition matchChar :: "char \<Rightarrow> string \<Rightarrow> (string \<times> nat) option" where
  "matchChar x s = (case s of [] \<Rightarrow> None | c # cs \<Rightarrow> if c = x then Some ([backslash, x], 0) else None)"

definition generateRouteHandlerFile :: "string \<Rightarrow> string" where
  "generateRouteHandlerFile content' =
     handlerHead @ replaceAll (matchChar backtick) content' @ handlerTail ''text/plain; charset=utf-8''"

text \<open>\<open>filterRoutesForCustomFile\<close>: a route is kept when its file path contains one of
  the include patterns with its first \<open>**\<close> removed.\<close>

definition filterRoutesForCustomFile :: "routeInfo list \<Rightarrow> customLLMFile \<Rightarrow> routeInfo list" where
  "filterRoutesForCustomFile routes customFile =
     filter (\<lambda>route. list_ex (\<lambda>pat. str_includes (filePath route) (replaceFirst ''**'' [] pat))
                             (cf_includePatterns customFile))
            routes"

section \<open>Per-page generator\<close>

text \<open>\<open>filterRoutes\<close>, \<open>createRouteHandlerContent\<close> and \<open>buildUrl\<close> of the per-page
  generator.\<close>

definition filterRoutes :: "host \<Rightarrow> routeInfo list \<Rightarrow> pluginOptions \<Rightarrow> routeInfo list" where
  "filterRoutes h routes options =
     (let includePatterns = (case perPageOpts options of None \<Rightarrow> []
                             | Some pp \<Rightarrow> (case pp_includePatterns pp of None \<Rightarrow> [] | Some ps \<Rightarrow> ps));
          excludePatterns' = (case perPageOpts options of None \<Rightarrow> []
                             | Some pp \<Rightarrow> (case pp_excludePatterns pp of None \<Rightarrow> [] | Some ps \<Rightarrow> ps))
      in filter (\<lambda>route.
           let relativePath = relativeToCwd h (filePath route)
           in if length includePatterns > 0 \<and> \<not> list_ex (globMatch h relativePath) includePatterns
              then False
              else if length excludePatterns' > 0 \<and> list_ex (globMatch h relativePath) excludePatterns'
              then False
              else True) routes)"

definition createRouteHandlerContent :: "string \<Rightarrow> string" where
  "createRouteHandlerContent markdownContent =
     (let escapedContent = replaceAll (matchChar CHR ''$'')
                             (replaceAll (matchChar backtick)
                                (replaceAll (matchChar backslash) markdownContent))
      in handlerHead @ escapedContent @ handlerTail ''text/markdown; charset=utf-8'')"

definition perPageBuildUrl :: "string \<Rightarrow> string option \<Rightarrow> string" where
  "perPageBuildUrl url site =
     (if \<not> truthy site then url
      else (let base = (if endsWith (the site) ''/'' then take (length (the site) - 1) (the site)
                        else the site);
                path = (if startsWith url ''/'' then url else ''/'' @ url)
            in base @ path))"

section \<open>Paths\<close>

text \<open>
  The functions of Node's \<open>path\<close> module in their POSIX form. \<open>normalizeString\<close> drops
  empty and \<open>.\<close> segments and resolves \<open>..\<close> against the segment before it; above the
  root of an absolute path \<open>..\<close> is dropped, in a relative path it is kept.
\<close>

fun normalizeString :: "bool \<Rightarrow> string list \<Rightarrow> string list \<Rightarrow> string list" where
  "normalizeString allowAboveRoot acc [] = rev acc"
| "normalizeString allowAboveRoot acc (s # ss) =
     (if s = [] \<or> s = ''.'' then normalizeString allowAboveRoot acc ss
      else if s = ''..'' then
        (case acc of
           [] \<Rightarrow> if allowAboveRoot then normalizeString allowAboveRoot [''..''] ss
                 else normalizeString allowAboveRoot [] ss
         | a # as \<Rightarrow> if a = ''..'' then normalizeString allowAboveRoot (''..'' # acc) ss
                     else normalizeString allowAboveRoot as ss)
      else normalizeString allowAboveRoot (s # acc) ss)"

definition path_normalize :: "string \<Rightarrow> string" where
  "path_normalize p =
     (if p = [] then ''.''
      else (let isAbsolute = startsWith p ''/'';
                trailingSeparator = endsWith p ''/'';
                q = join ''/'' (normalizeString (\<not> isAbsolute) [] (split CHR ''/'' p))
            in if q = [] then (if isAbsolute then ''/'' else if trailingSeparator then ''./'' else ''.'')
               else (let q = (if trailingSeparator then q @ ''/'' else q)
                     in if isAbsolute then ''/'' @ q else q)))"

definition path_join :: "string list \<Rightarrow> string" where
  "path_join args =
     (let joined = join ''/'' (filter (\<lambda>a. length a > 0) args)
      in if joined = [] then ''.'' else path_normalize joined)"

text \<open>\<open>path.resolve(cwd, p)\<close> for an absolute working directory, as its segments and as
  a string.\<close>

definition resolvedSegments :: "string \<Rightarrow> string \<Rightarrow> string list" where
  "resolvedSegments wd p =
     normalizeString False [] (split CHR ''/'' (if startsWith p ''/'' then p else wd @ ''/'' @ p))"


text \<open>\<open>path.dirname\<close>: the scan runs from the last code unit down to index 1, past the
  trailing slashes, to the last slash before them.\<close>

fun dirnameEnd :: "string \<Rightarrow> nat \<Rightarrow> bool \<Rightarrow> nat option" where
  "dirnameEnd p 0 matchedSlash = None"
| "dirnameEnd p (Suc i) matchedSlash =
     (if p ! Suc i = CHR ''/'' then (if \<not> matchedSlash then Some (Suc i) else dirnameEnd p i matchedSlash)
      else dirnameEnd p i False)"

definition path_dirname :: "string \<Rightarrow> string" where
  "path_dirname p =
     (if p = [] then ''.''
      else (let hasRoot = startsWith p ''/''
            in case dirnameEnd p (length p - 1) True of
                 None \<Rightarrow> if hasRoot then ''/'' else ''.''
               | Some e \<Rightarrow> if hasRoot \<and> e = 1 then ''//'' else take e p))"

text \<open>\<open>path.relative(from, to)\<close>: both paths are resolved, their common leading segments
  are dropped, and one \<open>..\<close> stands for each segment left of \<open>from\<close>.\<close>

fun commonPrefixLength :: "string list \<Rightarrow> string list \<Rightarrow> nat" where
  "commonPrefixLength (x # xs) (y # ys) = (if x = y then Suc (commonPrefixLength xs ys) else 0)"
| "commonPrefixLength _ _ = 0"

definition path_relative :: "string \<Rightarrow> string \<Rightarrow> string \<Rightarrow> string" where
  "path_relative wd from to =
     (let f = resolvedSegments wd from;
          t = resolvedSegments wd to;
          k = commonPrefixLength f t
      in join ''/'' (replicate (length f - k) ''..'' @ drop k t))"

section \<open>Scanner: route discovery\<close>

definition defaultExclusions :: "string list" where
  "defaultExclusions =
     [''**/api/**'', ''**/_*/**'', ''**/_*.tsx'', ''**/_*.ts'', ''**/route.ts'', ''**/.*'',
      ''**/node_modules/**'']"

definition shouldExclude :: "host \<Rightarrow> string \<Rightarrow> string list \<Rightarrow> bool" where
  "shouldExclude h relativePath pats =
     list_ex (\<lambda>pat. minimatch h relativePath pat) (defaultExclusions @ pats)"

definition createRouteInfo :: "host \<Rightarrow> string \<Rightarrow> string \<Rightarrow> string \<Rightarrow> routeInfo" where
  "createRouteInfo h fp dir fileName =
     (let relativePath = path_relative (cwd h) dir (path_dirname fp)
      in \<lparr>filePath = fp,
          urlPath = filePathToUrlPath relativePath,
          rtype = (if startsWith fileName ''page'' then Page
                   else if startsWith fileName ''layout'' then Layout else Route),
          metadata = None, content = None, headings = None\<rparr>)"

definition excludePatternsOf :: "pluginOptions \<Rightarrow> string list" where
  "excludePatternsOf options = (case excludePatterns options of None \<Rightarrow> [] | Some ps \<Rightarrow> ps)"

text \<open>\<open>scanDirectory\<close>: the routes one directory adds to the list, entry by entry. A
  directory that is not excluded is scanned whether it is a route group or not.\<close>

fun scanDirectory :: "host \<Rightarrow> pluginOptions \<Rightarrow> string \<Rightarrow> string \<Rightarrow> dirent list \<Rightarrow> routeInfo list"
  and scanEntry :: "host \<Rightarrow> pluginOptions \<Rightarrow> string \<Rightarrow> string \<Rightarrow> dirent \<Rightarrow> routeInfo list" where
  "scanDirectory h options dir app [] = []"
| "scanDirectory h options dir app (e # es) =
     scanEntry h options dir app e @ scanDirectory h options dir app es"
| "scanEntry h options dir app (DirEntry name children) =
     (let fullPath = path_join [dir, name];
          relativePath = path_relative (cwd h) app fullPath
      in if shouldExclude h relativePath (excludePatternsOf options) then []
         else scanDirectory h options fullPath app children)"
| "scanEntry h options dir app (FileEntry name) =
     (let fullPath = path_join [dir, name];
          relativePath = path_relative (cwd h) app fullPath
      in if shouldExclude h relativePath (excludePatternsOf options) then []
         else if name \<in> set [''page.tsx'', ''page.ts'', ''layout.tsx'', ''layout.ts'', ''route.ts'']
         then (let routeInfo = createRouteInfo h fullPath app name
               in if startsWith name ''page.'' then [routeInfo] else [])
         else [])"
| "scanEntry h options dir app (OtherEntry name) = []"


section \<open>Per-page generator: the handler's path\<close>

definition getRouteHandlerPath :: "host \<Rightarrow> routeInfo \<Rightarrow> string \<Rightarrow> string" where
  "getRouteHandlerPath h route dir =
     (let routeDir = path_dirname (filePath route);
          relativePath = path_relative (cwd h) dir routeDir;
          pathWithoutGroups = replaceAll matchRouteGroup relativePath
      in if pathWithoutGroups = [] \<or> pathWithoutGroups = ''.''
         then path_join [dir, ''index.html.md'', ''route.ts'']
         else (let segments = split CHR ''/'' pathWithoutGroups;
                   lastSegment = last segments;
                   segments = butlast segments;
                   parentPath = (if length segments > 0 then join ''/'' segments else []);
                   htmlMdDir = (if parentPath \<noteq> []
                                then path_join [dir, parentPath, lastSegment @ ''.html.md'']
                                else path_join [dir, lastSegment @ ''.html.md''])
               in path_join [htmlMdDir, ''route.ts'']))"

section \<open>Content processor\<close>

text \<open>\<open>/\n{3,}/g\<close> with two line feeds, and \<open>/\s{2,}/g\<close> with one space: the longest
  run at the place of the match is replaced.\<close>

definition matchNewlines :: "string \<Rightarrow> (string \<times> nat) option" where
  "matchNewlines s =
     (let run = takeWhile (\<lambda>c. c = newline) s
      in if length run \<ge> 3 then Some ([newline, newline], length run - 1) else None)"

definition matchSpaces :: "string \<Rightarrow> (string \<times> nat) option" where
  "matchSpaces s =
     (let run = takeWhile isSpace s
      in if length run \<ge> 2 then Some ('' '', length run - 1) else None)"

text \<open>What each visited node pushes on \<open>extractedText\<close>.\<close>

definition pushTrimmed :: "string \<Rightarrow> string list" where
  "pushTrimmed v = (if v \<noteq> [] \<and> length (trim v) > 0 then [trim v] else [])"

fun nodeText :: "astNode \<Rightarrow> string list" where
  "nodeText (StringLiteral v) = pushTrimmed v"
| "nodeText (TemplateLiteral quasis) =
     (let combined = join '' '' (map (\<lambda>q. case q of None \<Rightarrow> [] | Some c \<Rightarrow> c) quasis)
      in if length (trim combined) > 0 then [trim combined] else [])"
| "nodeText (JSXText v) = pushTrimmed v"
| "nodeText (JSXElement tag children) = []"

definition maxLength :: "contentOptions \<Rightarrow> int" where
  "maxLength options = (case maxContentLength options of None \<Rightarrow> 50000 | Some m \<Rightarrow> m)"

text \<open>The text of a parsed page before truncation.\<close>

definition processedText :: "astNode list \<Rightarrow> string" where
  "processedText nodes =
     (let extractedText = concat (map nodeText nodes);
          processedContent = join [newline, newline] extractedText;
          processedContent = replaceAll matchNewlines processedContent
      in replaceAll matchSpaces processedContent)"

text \<open>
  \<open>processContent\<close>. \<open>substring(0, n)\<close> takes no code unit for a negative \<open>n\<close>. When
  \<open>parse\<close> throws, the handler evaluates \<open>routeInfo.filePath\<close> for its warning;
  \<open>routeInfo\<close> is not in scope in \<open>processContent\<close>, so the handler itself throws a
  \<open>ReferenceError\<close> before it reaches \<open>fallbackContentExtraction\<close>.
\<close>

definition processContent :: "host \<Rightarrow> string \<Rightarrow> contentOptions \<Rightarrow> jsError + string" where
  "processContent h src options =
     (case parseAndTraverse h src of
        Some nodes \<Rightarrow>
          (let processedContent = processedText nodes
           in if int (length processedContent) > maxLength options
              then Inr (take (nat (maxLength options)) processedContent @ ''...'')
              else Inr processedContent)
      | None \<Rightarrow> Inl (ReferenceError ''routeInfo''))"

text \<open>\<open>/^import\s+.*$/gm\<close>: at the start of a line, \<open>import\<close>, white space (line ends
  included), and the rest of the line.\<close>

definition importLength :: "string \<Rightarrow> nat option" where
  "importLength s =
     (if startsWith s ''import'' then
        (let ws = takeWhile isSpace (drop 6 s);
             line = takeWhile (\<lambda>c. \<not> isLineTerminator c) (dropWhile isSpace (drop 6 s))
         in if ws \<noteq> [] then Some (6 + length ws + length line) else None)
      else None)"

fun removeImports :: "bool \<Rightarrow> string \<Rightarrow> string" where
  "removeImports atLineStart [] = []"
| "removeImports atLineStart (c # cs) =
     (case (if atLineStart then importLength (c # cs) else None) of
        Some n \<Rightarrow> removeImports False (drop (n - 1) cs)
      | None \<Rightarrow> c # removeImports (isLineTerminator c) cs)"

text \<open>\<open>/\/\*[\s\S]*?\*\//g\<close>: from \<open>/*\<close> to the first \<open>*/\<close> after it.\<close>

fun indexOf :: "string \<Rightarrow> string \<Rightarrow> nat option" where
  "indexOf [] sub = (if sub = [] then Some 0 else None)"
| "indexOf (c # cs) sub =
     (if startsWith (c # cs) sub then Some 0 else map_option Suc (indexOf cs sub))"

definition matchBlockComment :: "string \<Rightarrow> (string \<times> nat) option" where
  "matchBlockComment s =
     (if startsWith s ''/*'' then
        (case indexOf (drop 2 s) ''*/'' of None \<Rightarrow> None | Some k \<Rightarrow> Some ([], k + 3))
      else None)"

text \<open>\<open>/\/\/.*/g\<close>: from \<open>//\<close> to the end of the line.\<close>

definition matchLineComment :: "string \<Rightarrow> (string \<times> nat) option" where
  "matchLineComment s =
     (if startsWith s ''//''
      then Some ([], length (takeWhile (\<lambda>c. \<not> isLineTerminator c) (drop 2 s)) + 1)
      else None)"

text \<open>\<open>processed.match(/'([^']*)'|"([^"]*)"|`([^`]*)`/g)\<close>: the quoted stretches, quotes
  included, from left to right.\<close>

fun matchStrings :: "string \<Rightarrow> string list" where
  "matchStrings [] = []"
| "matchStrings (c # cs) =
     (if (c = quote \<or> c = CHR 0x22 \<or> c = backtick) \<and> c \<in> set cs
      then (let body = takeWhile (\<lambda>x. x \<noteq> c) cs
            in (c # body @ [c]) # matchStrings (drop (length body + 1) cs))
      else matchStrings cs)"

text \<open>The text the fallback extracts before truncation.\<close>

definition fallbackText :: "string \<Rightarrow> string" where
  "fallbackText src =
     (let processed = removeImports True src;
          processed = replaceAll matchBlockComment processed;
          processed = replaceAll matchLineComment processed;
          strings = matchStrings processed
      in join [newline, newline]
           (filter (\<lambda>s. length (trim s) > 0) (map (\<lambda>s. butlast (drop 1 s)) strings)))"

definition fallbackContentExtraction :: "string \<Rightarrow> contentOptions \<Rightarrow> string" where
  "fallbackContentExtraction src options =
     (let extractedText = fallbackText src
      in if int (length extractedText) > maxLength options
         then take (nat (maxLength options)) extractedText @ ''...''
         else extractedText)"

definition extractPageContent ::
  "host \<Rightarrow> fileSystem \<Rightarrow> routeInfo \<Rightarrow> contentOptions \<Rightarrow> jsError + string option" where
  "extractPageContent h fs route options =
     (if \<not> existsSync fs (filePath route) then Inr None
      else (case readFileSync fs (filePath route) of
              Inl e \<Rightarrow> Inl e
            | Inr src \<Rightarrow> map_sum id Some (processContent h src options)))"

text \<open>\<open>parseHeadings\<close>: the elements \<open>h1\<close> to \<open>h6\<close>, each with the trimmed text of its
  direct text children joined by a space; a parse failure leaves the list empty.\<close>

definition headingLevel :: "string \<Rightarrow> nat option" where
  "headingLevel tag =
     (case tag of
        [a, b] \<Rightarrow> if a = CHR ''h'' \<and> b \<in> set ''123456'' then Some (of_char b - 48) else None
      | _ \<Rightarrow> None)"

fun nodeHeading :: "astNode \<Rightarrow> heading list" where
  "nodeHeading (JSXElement (Some tag) children) =
     (case headingLevel tag of
        None \<Rightarrow> []
      | Some l \<Rightarrow>
          (let t = join '' '' (concat (map (\<lambda>c. case c of ChildText v \<Rightarrow> [trim v] | ChildOther \<Rightarrow> []) children))
           in if t \<noteq> [] then [\<lparr>level = l, htext = t\<rparr>] else []))"
| "nodeHeading _ = []"

definition parseHeadings :: "host \<Rightarrow> string \<Rightarrow> heading list" where
  "parseHeadings h src =
     (case parseAndTraverse h src of None \<Rightarrow> [] | Some nodes \<Rightarrow> concat (map nodeHeading nodes))"

definition extractHeadings :: "host \<Rightarrow> fileSystem \<Rightarrow> routeInfo \<Rightarrow> jsError + heading list" where
  "extractHeadings h fs route =
     (if \<not> existsSync fs (filePath route) then Inr []
      else (case readFileSync fs (filePath route) of
              Inl e \<Rightarrow> Inl e
            | Inr src \<Rightarrow> Inr (parseHeadings h src)))"

text \<open>\<open>enrichRoutesWithContent\<close>: route after route; the first error ends the loop.\<close>

fun enrichRoutesWithContent ::
  "host \<Rightarrow> fileSystem \<Rightarrow> routeInfo list \<Rightarrow> contentOptions \<Rightarrow> jsError + routeInfo list" where
  "enrichRoutesWithContent h fs [] options = Inr []"
| "enrichRoutesWithContent h fs (route # routes) options =
     (case extractPageContent h fs route options of
        Inl e \<Rightarrow> Inl e
      | Inr c \<Rightarrow>
          (case extractHeadings h fs route of
             Inl e \<Rightarrow> Inl e
           | Inr hs \<Rightarrow>
               (case enrichRoutesWithContent h fs routes options of
                  Inl e \<Rightarrow> Inl e
                | Inr enriched \<Rightarrow> Inr (route\<lparr>content := c, headings := Some hs\<rparr> # enriched))))"

section \<open>Template literals\<close>

text \<open>
  The value a template literal without substitutions evaluates to, which is what the
  generated endpoint serves: an escape sequence gives the unit it names, a line
  continuation gives nothing, a carriage return (with a line feed after it) is read as a
  line feed. A backtick ends the literal, \<open>${\<close> opens a substitution; numeric, \<open>\x\<close>
  and \<open>\u\<close> escapes are outside this model.
\<close>

datatype templateError = UnescapedBacktick | Substitution | DanglingBackslash | UnsupportedEscape

definition escapeValue :: "char \<Rightarrow> string option" where
  "escapeValue e =
     (if e = CHR ''n'' then Some [CHR 0x0A]
      else if e = CHR ''t'' then Some [CHR 0x09]
      else if e = CHR ''r'' then Some [CHR 0x0D]
      else if e = CHR ''b'' then Some [CHR 0x08]
      else if e = CHR ''f'' then Some [CHR 0x0C]
      else if e = CHR ''v'' then Some [CHR 0x0B]
      else if e = newline then Some []
      else if e = CHR ''x'' \<or> e = CHR ''u'' \<or> e \<in> set ''0123456789'' then None
      else Some [e])"

definition prepend :: "string \<Rightarrow> templateError + string \<Rightarrow> templateError + string" where
  "prepend v r = (case r of Inl e \<Rightarrow> Inl e | Inr s \<Rightarrow> Inr (v @ s))"

fun cookTemplate :: "string \<Rightarrow> templateError + string" where
  "cookTemplate [] = Inr []"
| "cookTemplate [c] =
     (if c = backtick then Inl UnescapedBacktick
      else if c = backslash then Inl DanglingBackslash
      else if c = carriage_return then Inr [newline]
      else Inr [c])"
| "cookTemplate (c # d # cs) =
     (if c = backtick then Inl UnescapedBacktick
      else if c = CHR ''$'' \<and> d = CHR ''{'' then Inl Substitution
      else if c = backslash then
        (if d = carriage_return then cookTemplate (if startsWith cs [newline] then drop 1 cs else cs)
         else (case escapeValue d of
                 None \<Rightarrow> Inl UnsupportedEscape
               | Some v \<Rightarrow> prepend v (cookTemplate cs)))
      else if c = carriage_return then
        prepend [newline] (cookTemplate (if d = newline then cs else d # cs))
      else prepend [c] (cookTemplate (d # cs)))"

text \<open>The body of a generated handler: what stands between \<open>handlerHead\<close> and the tail.\<close>

definition handlerBody :: "string \<Rightarrow> string \<Rightarrow> string" where
  "handlerBody contentType code =
     take (length code - length handlerHead - length (handlerTail contentType))
          (drop (length handlerHead) code)"

text \<open>Whether a double slash touches index \<open>n\<close>: the code unit at \<open>n\<close> and the one
  before it, or the one after it, are both slashes.\<close>

definition doubleSlashAt :: "string \<Rightarrow> nat \<Rightarrow> bool" where
  "doubleSlashAt s n =
     ((0 < n \<and> n < length s \<and> s ! (n - 1) = CHR ''/'' \<and> s ! n = CHR ''/'') \<or>
      (Suc n < length s \<and> s ! n = CHR ''/'' \<and> s ! Suc n = CHR ''/''))"

section \<open>A route without content, and concrete instances\<close>

text \<open>A route as the full digest may read it: the headings of a route that has no
  content removed.\<close>

definition withoutOrphanHeadings :: "routeInfo \<Rightarrow> routeInfo" where
  "withoutOrphanHeadings route = (if truthy (content route) then route else route\<lparr>headings := None\<rparr>)"

definition headingLine :: "heading \<Rightarrow> string" where
  "headingLine hdg = replicate (level hdg) CHR ''#'' @ '' '' @ htext hdg"

text \<open>A small glob matcher: \<open>dir/**\<close> matches what lies under \<open>dir/\<close>.\<close>

definition exampleGlob :: "string \<Rightarrow> string \<Rightarrow> bool" where
  "exampleGlob path pat = (endsWith pat ''/**'' \<and> startsWith path (take (length pat - 2) pat))"

definition exampleSource :: string where
  "exampleSource = ''<h1 title='' @ [CHR 0x22] @ ''hello world'' @ [CHR 0x22] @ ''>Welcome</h1>''"

definition exampleHost :: host where
  "exampleHost =
     \<lparr>cwd = ''/w'', minimatch = exampleGlob, localeCompare = codeUnitCompare, toUpperCase = id,
      parseAndTraverse = (\<lambda>s. if s = exampleSource
         then Some [JSXElement (Some ''h1'') [ChildText ''Welcome''], StringLiteral ''hello world'',
                    JSXText ''Welcome'']
         else None)\<rparr>"

definition exampleRoute :: "string \<Rightarrow> string \<Rightarrow> routeInfo" where
  "exampleRoute fp url =
     \<lparr>filePath = fp, urlPath = url, rtype = Page, metadata = None, content = None, headings = None\<rparr>"

definition exampleOptions :: pluginOptions where
  "exampleOptions =
     \<lparr>opt_title = Some ''Example'', opt_description = None, siteUrl = Some ''https://example.com/'',
      appDir = None, excludePatterns = None,
      sources = Some [\<lparr>cs_section = ''Docs'', cs_pattern = ''app/docs/**'', cs_priority = Some High,
                        cs_description = None\<rparr>,
                      \<lparr>cs_section = ''Blog'', cs_pattern = ''app/blog/**'', cs_priority = Some Low,
                        cs_description = None\<rparr>,
                      \<lparr>cs_section = ''News'', cs_pattern = ''app/news/**'', cs_priority = None,
                        cs_description = None\<rparr>],
      customSections = None, perPageOpts = None, generatePerPageMarkdown = None\<rparr>"

definition exampleRoutes :: "routeInfo list" where
  "exampleRoutes =
     [exampleRoute ''/w/app/blog/b/page.tsx'' ''/blog/b'',
      exampleRoute ''/w/app/page.tsx'' ''/'',
      exampleRoute ''/w/app/docs/z/page.tsx'' ''/docs/z'',
      exampleRoute ''/w/app/about/page.tsx'' ''/about'',
      exampleRoute ''/w/app/docs/a/page.tsx'' ''/docs/a'']"

definition exampleFiles :: fileSystem where
  "exampleFiles p = (if p = ''/w/app/page.tsx'' then Some (RegularFile exampleSource) else None)"

section \<open>Paths as segments, and the rank of the first match\<close>










text \<open>The rank the specification gives a route: that of the first source whose pattern
  it matches, the source that also names its section; medium when it matches none.\<close>

definition firstMatchPriority :: "host \<Rightarrow> pluginOptions \<Rightarrow> routeInfo \<Rightarrow> int" where
  "firstMatchPriority h options route =
     (case find (scannerMatches h route) (sourcesOf options) of
        None \<Rightarrow> priorityMap Medium
      | Some source \<Rightarrow> priorityMap (case cs_priority source of None \<Rightarrow> Medium | Some p \<Rightarrow> p))"

text \<open>Sources whose patterns overlap: every guide is also a document.\<close>

definition overlappingOptions :: pluginOptions where
  "overlappingOptions =
     exampleOptions\<lparr>sources :=
       Some [\<lparr>cs_section = ''Docs'', cs_pattern = ''app/docs/**'', cs_priority = Some High,
               cs_description = None\<rparr>,
             \<lparr>cs_section = ''Guides'', cs_pattern = ''app/docs/guides/**'', cs_priority = Some Low,
               cs_description = None\<rparr>]\<rparr>"

text \<open>A source text that does not parse.\<close>

definition brokenSource :: string where
  "brokenSource = ''const t = '' @ [CHR 0x22] @ ''hello world'' @ [CHR 0x22] @ ''; <p''"
section \<open>URL derivation: proofs\<close>

lemma startsWith_slash_iff: "startsWith s ''/'' \<longleftrightarrow> (\<exists>t. s = CHR ''/'' # t)"
  by (cases s) (auto simp: startsWith_def)































section \<open>URL derivation of a path of segments\<close>









lemma join_Cons_Cons: "join sep (x # y # ys) = x @ sep @ join sep (y # ys)"
  by simp















section \<open>Truncation\<close>

text \<open>
  When the page parses, \<open>processContent\<close> returns the processed text cut to the
  configured maximum (50000 when none is configured) and followed by \<open>...\<close> if the text
  is longer than the maximum, and the text itself otherwise; \<open>extractPageContent\<close>
  returns the same for a page that is on disk; \<open>fallbackContentExtraction\<close>, called on
  its own, applies the same rule to the text it extracts.
\<close>

lemma truncation_rule:
  "(parseAndTraverse h src = Some nodes \<longrightarrow>
      processContent h src options =
        Inr (if int (length (processedText nodes)) > maxLength options
             then take (nat (maxLength options)) (processedText nodes) @ ''...''
             else processedText nodes)) \<and>
   (fs (filePath route) = Some (RegularFile src) \<and> parseAndTraverse h src = Some nodes \<longrightarrow>
      extractPageContent h fs route options =
        Inr (Some (if int (length (processedText nodes)) > maxLength options
                   then take (nat (maxLength options)) (processedText nodes) @ ''...''
                   else processedText nodes))) \<and>
   fallbackContentExtraction src options =
     (if int (length (fallbackText src)) > maxLength options
      then take (nat (maxLength options)) (fallbackText src) @ ''...''
      else fallbackText src) \<and>
   maxLength \<lparr>maxContentLength = None\<rparr> = 50000 \<and>
   maxLength \<lparr>maxContentLength = Some m\<rparr> = m"
  by (auto simp: processContent_def extractPageContent_def existsSync_def readFileSync_def
      fallbackContentExtraction_def maxLength_def Let_def)

lemma truncation_rule_example:
  "parseAndTraverse exampleHost exampleSource =
     Some [JSXElement (Some ''h1'') [ChildText ''Welcome''], StringLiteral ''hello world'', JSXText ''Welcome''] \<and>
   exampleFiles (filePath (exampleRoute ''/w/app/page.tsx'' ''/'')) = Some (RegularFile exampleSource) \<and>
   processContent exampleHost exampleSource \<lparr>maxContentLength = Some 5\<rparr> = Inr ''hello...'' \<and>
   extractPageContent exampleHost exampleFiles (exampleRoute ''/w/app/page.tsx'' ''/'') \<lparr>maxContentLength = Some 5\<rparr>
     = Inr (Some ''hello...'') \<and>
   fallbackContentExtraction exampleSource \<lparr>maxContentLength = Some 5\<rparr> = ''hello...'' \<and>
   fallbackContentExtraction exampleSource \<lparr>maxContentLength = Some 11\<rparr> = ''hello world''"
proof -
  let ?nodes = "[JSXElement (Some ''h1'') [ChildText ''Welcome''], StringLiteral ''hello world'', JSXText ''Welcome'']"
  have h1: "parseAndTraverse exampleHost exampleSource = Some ?nodes"
    by (simp add: exampleHost_def)
  have h2: "exampleFiles (filePath (exampleRoute ''/w/app/page.tsx'' ''/'')) = Some (RegularFile exampleSource)"
    by (simp add: exampleFiles_def exampleRoute_def)
  have p: "processedText ?nodes = ''hello world Welcome''" by code_simp
  have f: "fallbackText exampleSource = ''hello world''" by code_simp
  from truncation_rule [of exampleHost exampleSource ?nodes "\<lparr>maxContentLength = Some 5\<rparr>"
      exampleFiles "exampleRoute ''/w/app/page.tsx'' ''/''" 5] h1 h2
  have "processContent exampleHost exampleSource \<lparr>maxContentLength = Some 5\<rparr> = Inr ''hello...''"
    and "extractPageContent exampleHost exampleFiles (exampleRoute ''/w/app/page.tsx'' ''/'') \<lparr>maxContentLength = Some 5\<rparr>
     = Inr (Some ''hello...'')"
    and "fallbackContentExtraction exampleSource \<lparr>maxContentLength = Some 5\<rparr> = ''hello...''"
    by (simp_all add: p f)
  moreover from truncation_rule [of exampleHost exampleSource ?nodes "\<lparr>maxContentLength = Some 11\<rparr>"
      exampleFiles "exampleRoute ''/w/app/page.tsx'' ''/''" 11]
  have "fallbackContentExtraction exampleSource \<lparr>maxContentLength = Some 11\<rparr> = ''hello world''"
    by (simp add: f)
  ultimately show ?thesis using h1 h2 by simp
qed

text \<open>
  C3. On a page that does not parse, \<open>processContent\<close> does not reach the fallback: the
  handler of the parse error raises a \<open>ReferenceError\<close>, \<open>extractPageContent\<close> and the
  enrichment of the routes fail with it, and no truncated fallback text is returned, for
  any source, any maximum and any host whose parser fails. The fallback itself would have
  returned the first five code units and \<open>...\<close> for the broken source below.
\<close>

theorem processContent_parse_failure_raises:
  "processContent (h\<lparr>parseAndTraverse := (\<lambda>s. None)\<rparr>) src options = Inl (ReferenceError ''routeInfo'') \<and>
   extractPageContent (h\<lparr>parseAndTraverse := (\<lambda>s. None)\<rparr>) (\<lambda>p. Some (RegularFile src)) route options
     = Inl (ReferenceError ''routeInfo'') \<and>
   enrichRoutesWithContent (h\<lparr>parseAndTraverse := (\<lambda>s. None)\<rparr>) (\<lambda>p. Some (RegularFile src))
     (route # routes) options = Inl (ReferenceError ''routeInfo'') \<and>
   parseAndTraverse exampleHost brokenSource = None \<and>
   processContent exampleHost brokenSource \<lparr>maxContentLength = Some 5\<rparr> = Inl (ReferenceError ''routeInfo'') \<and>
   fallbackContentExtraction brokenSource \<lparr>maxContentLength = Some 5\<rparr> = ''hello...''"
proof -
  let ?h = "h\<lparr>parseAndTraverse := (\<lambda>s. None)\<rparr>"
  have a: "processContent ?h src options = Inl (ReferenceError ''routeInfo'')"
    by (simp add: processContent_def)
  have b: "extractPageContent ?h (\<lambda>p. Some (RegularFile src)) route options = Inl (ReferenceError ''routeInfo'')"
    by (simp add: extractPageContent_def existsSync_def readFileSync_def a)
  have c: "enrichRoutesWithContent ?h (\<lambda>p. Some (RegularFile src)) (route # routes) options
             = Inl (ReferenceError ''routeInfo'')"
    by (simp add: b)
  have n: "brokenSource \<noteq> exampleSource" by code_simp
  then have d: "parseAndTraverse exampleHost brokenSource = None" by (simp add: exampleHost_def)
  then have e: "processContent exampleHost brokenSource \<lparr>maxContentLength = Some 5\<rparr> = Inl (ReferenceError ''routeInfo'')"
    by (simp add: processContent_def)
  have f: "fallbackContentExtraction brokenSource \<lparr>maxContentLength = Some 5\<rparr> = ''hello...''"
    by code_simp
  show ?thesis by (intro conjI a b c d e f)
qed


section \<open>URL resolution\<close>

lemma stripTrailingSlash_no_slash:
  "\<not> endsWith b ''//'' \<Longrightarrow> \<not> endsWith (stripTrailingSlash b) ''/''"
proof (cases "endsWith b ''/''")
  case False
  then show ?thesis by (simp add: stripTrailingSlash_def)
next
  case True
  assume n: "\<not> endsWith b ''//''"
  from True obtain b' where b: "b = b' @ ''/''"
    by (cases b rule: rev_cases) (auto simp: endsWith_def)
  from n b have "\<not> endsWith b' ''/''"
    by (cases b' rule: rev_cases) (auto simp: endsWith_def)
  with True b show ?thesis by (simp add: stripTrailingSlash_def)
qed

lemma perPageBuildUrl_eq: "perPageBuildUrl url site = buildUrl url site"
  by (cases site) (auto simp: perPageBuildUrl_def buildUrl_def stripTrailingSlash_def Let_def
      truthy_def butlast_conv_take)

lemma leading_slash_single:
  assumes "\<not> startsWith url ''//''"
  shows "\<exists>r. (if startsWith url ''/'' then url else ''/'' @ url) = CHR ''/'' # r \<and> \<not> startsWith r ''/''"
proof (cases "startsWith url ''/''")
  case True
  then obtain r where r: "url = CHR ''/'' # r" by (auto simp: startsWith_slash_iff)
  with assms have "\<not> startsWith r ''/''" by (cases r) (auto simp: startsWith_def)
  with True r show ?thesis by simp
next
  case False
  then show ?thesis by simp
qed

lemma no_double_slash_at_join:
  assumes s: "\<not> endsWith s ''/''" and r: "\<not> startsWith r ''/''"
  shows "\<not> doubleSlashAt (s @ CHR ''/'' # r) (length s)"
proof -
  have a: "(s @ CHR ''/'' # r) ! (length s - 1) \<noteq> CHR ''/''" if "0 < length s"
  proof (cases s rule: rev_cases)
    case Nil
    with that show ?thesis by simp
  next
    case (snoc ys y)
    with s have "y \<noteq> CHR ''/''" by (simp add: endsWith_def)
    then show ?thesis unfolding snoc by (simp add: nth_append)
  qed
  have b: "(s @ CHR ''/'' # r) ! Suc (length s) \<noteq> CHR ''/''" if "Suc (length s) < length (s @ CHR ''/'' # r)"
  proof (cases r)
    case Nil
    with that show ?thesis by simp
  next
    case (Cons x xs)
    with r have "x \<noteq> CHR ''/''" by (simp add: startsWith_def)
    then show ?thesis unfolding Cons by (simp add: nth_append)
  qed
  show ?thesis unfolding doubleSlashAt_def using a b by blast
qed

text \<open>
  C5 (as amended). Without a base (none, or the empty string) the resolved URL is the URL
  path itself. Otherwise it is the base without one trailing slash, followed by the path
  with a leading slash; both generators agree. When the base does not end in two slashes
  and the path does not begin with two slashes, no double slash touches the join: the
  slash at the join has no slash before it and none after it.
\<close>

theorem buildUrl_join:
  "buildUrl url None = url \<and> buildUrl url (Some []) = url \<and>
   perPageBuildUrl url site = buildUrl url site \<and>
   (b \<noteq> [] \<longrightarrow>
      buildUrl url (Some b) = stripTrailingSlash b @ (if startsWith url ''/'' then url else ''/'' @ url)) \<and>
   (b \<noteq> [] \<and> \<not> endsWith b ''//'' \<and> \<not> startsWith url ''//'' \<longrightarrow>
      \<not> doubleSlashAt (buildUrl url (Some b)) (length (stripTrailingSlash b)) \<and>
      buildUrl url (Some b) ! length (stripTrailingSlash b) = CHR ''/'')"
proof -
  have j: "\<not> doubleSlashAt (buildUrl url (Some b)) (length (stripTrailingSlash b)) \<and>
           buildUrl url (Some b) ! length (stripTrailingSlash b) = CHR ''/''"
    if b: "b \<noteq> []" and n: "\<not> endsWith b ''//''" and p: "\<not> startsWith url ''//''"
  proof -
    let ?s = "stripTrailingSlash b"
    have e: "\<not> endsWith ?s ''/''" by (rule stripTrailingSlash_no_slash [OF n])
    from leading_slash_single [OF p] obtain r where
      r: "(if startsWith url ''/'' then url else ''/'' @ url) = CHR ''/'' # r" and r': "\<not> startsWith r ''/''"
      by blast
    have u: "buildUrl url (Some b) = ?s @ CHR ''/'' # r"
      using b r by (simp add: buildUrl_def truthy_def)
    show ?thesis unfolding u using no_double_slash_at_join [OF e r'] by simp
  qed
  have k: "buildUrl url (Some b) = stripTrailingSlash b @ (if startsWith url ''/'' then url else ''/'' @ url)"
    if "b \<noteq> []"
    using that by (simp add: buildUrl_def truthy_def)
  have "buildUrl url None = url" "buildUrl url (Some []) = url"
    by (simp_all add: buildUrl_def truthy_def)
  with j k perPageBuildUrl_eq [of url site] show ?thesis by blast
qed

theorem buildUrl_join_witness:
  "''https://example.com/'' \<noteq> [] \<and> \<not> endsWith ''https://example.com/'' ''//'' \<and>
   \<not> startsWith ''/products'' ''//'' \<and>
   buildUrl ''/products'' (Some ''https://example.com/'') = ''https://example.com/products'' \<and>
   \<not> doubleSlashAt ''https://example.com/products'' (length ''https://example.com'')"
proof -
  have h1: "''https://example.com/'' \<noteq> []" by simp
  have h2: "\<not> endsWith ''https://example.com/'' ''//''" by code_simp
  have h3: "\<not> startsWith ''/products'' ''//''" by code_simp
  have s: "stripTrailingSlash ''https://example.com/'' = ''https://example.com''" by code_simp
  note t = buildUrl_join [of "''/products''" "Some ''https://example.com/''" "''https://example.com/''"]
  from t h1 have a: "buildUrl ''/products'' (Some ''https://example.com/'') =
          stripTrailingSlash ''https://example.com/'' @ (if startsWith ''/products'' ''/'' then ''/products'' else ''/'' @ ''/products'')"
    by blast
  from t h1 h2 h3 have b: "\<not> doubleSlashAt (buildUrl ''/products'' (Some ''https://example.com/''))
           (length (stripTrailingSlash ''https://example.com/''))"
    by blast
  have a': "buildUrl ''/products'' (Some ''https://example.com/'') = ''https://example.com/products''"
    unfolding a s by (simp add: startsWith_def)
  from b have b': "\<not> doubleSlashAt ''https://example.com/products'' (length ''https://example.com'')"
    unfolding a' s .
  show ?thesis by (intro conjI h1 h2 h3 a' b')
qed

text \<open>A base that ends in two slashes keeps one of them, and a path that begins with two
  slashes keeps both: either way the join has a double slash.\<close>

theorem buildUrl_double_slash_counterexample:
  "buildUrl ''/a'' (Some ''http://x//'') = ''http://x//a'' \<and>
   doubleSlashAt (buildUrl ''/a'' (Some ''http://x//'')) (length (stripTrailingSlash ''http://x//'')) \<and>
   buildUrl ''//a'' (Some ''http://x'') = ''http://x//a'' \<and>
   doubleSlashAt (buildUrl ''//a'' (Some ''http://x'')) (length (stripTrailingSlash ''http://x''))"
  by code_simp


section \<open>Custom files\<close>

text \<open>
  C7. The selection for a custom file does not depend on the exclude patterns: a route
  under an excluded directory is kept when an include pattern's text occurs in its path.
\<close>

theorem filterRoutesForCustomFile_ignores_excludes:
  "filterRoutesForCustomFile routes (customFile\<lparr>cf_excludePatterns := e\<rparr>) =
     filterRoutesForCustomFile routes customFile \<and>
   filterRoutesForCustomFile [exampleRoute ''/w/app/use-cases/developers/page.tsx'' ''/use-cases/developers'']
     \<lparr>cf_filename = ''llms-sales.txt'', cf_title = ''Sales'', cf_description = ''Sales pages'',
      cf_includePatterns = [''app/use-cases/**''], cf_fullContent = None,
      cf_excludePatterns = Some [''**/developers/**'']\<rparr>
   = [exampleRoute ''/w/app/use-cases/developers/page.tsx'' ''/use-cases/developers'']"
proof -
  have "str_includes ''/w/app/use-cases/developers/page.tsx'' (replaceFirst ''**'' [] ''app/use-cases/**'')"
    by code_simp
  then show ?thesis
    by (simp add: filterRoutesForCustomFile_def exampleRoute_def)
qed

section \<open>Missing input\<close>




section \<open>Handler paths\<close>

text \<open>
  C9. A route whose last directory is a group: the group's removal leaves a trailing
  slash, the last segment is empty, and the handler lands in a directory \<open>.html.md\<close>
  under \<open>dashboard\<close> instead of \<open>dashboard.html.md\<close>. With the group in front the path is
  the expected one.
\<close>

theorem getRouteHandlerPath_trailing_group:
  "getRouteHandlerPath h (exampleRoute ''/app/dashboard/(overview)/page.tsx'' ''/dashboard'') ''/app''
     = ''/app/dashboard/.html.md/route.ts'' \<and>
   getRouteHandlerPath h (exampleRoute ''/app/(overview)/dashboard/page.tsx'' ''/dashboard'') ''/app''
     = ''/app/dashboard.html.md/route.ts''"
proof -
  have d: "path_dirname ''/app/dashboard/(overview)/page.tsx'' = ''/app/dashboard/(overview)''"
    "path_dirname ''/app/(overview)/dashboard/page.tsx'' = ''/app/(overview)/dashboard''"
    by code_simp+
  have r: "path_relative (cwd h) ''/app'' ''/app/dashboard/(overview)'' = ''dashboard/(overview)''"
    "path_relative (cwd h) ''/app'' ''/app/(overview)/dashboard'' = ''(overview)/dashboard''"
    by (simp_all add: path_relative_def resolvedSegments_def startsWith_def)
  have g: "replaceAll matchRouteGroup ''dashboard/(overview)'' = ''dashboard/''"
    "replaceAll matchRouteGroup ''(overview)/dashboard'' = ''dashboard''"
    by code_simp+
  have s: "split CHR ''/'' ''dashboard/'' = [''dashboard'', []]"
    "split CHR ''/'' ''dashboard'' = [''dashboard'']"
    by code_simp+
  have j: "path_join [''/app'', ''dashboard'', ''.html.md''] = ''/app/dashboard/.html.md''"
    "path_join [''/app/dashboard/.html.md'', ''route.ts''] = ''/app/dashboard/.html.md/route.ts''"
    "path_join [''/app'', ''dashboard.html.md''] = ''/app/dashboard.html.md''"
    "path_join [''/app/dashboard.html.md'', ''route.ts''] = ''/app/dashboard.html.md/route.ts''"
    by code_simp+
  show ?thesis
    by (simp add: getRouteHandlerPath_def exampleRoute_def d r g s j del: replaceAll.simps split.simps)
qed

section \<open>The full digest and routes without content\<close>

lemma update_apsnd:
  "AList.update k (g v) (map (apsnd g) m) = map (apsnd g) (AList.update k v m)"
  by (induction m) auto

lemma map_of_apsnd: "map_of (map (apsnd g) m) k = map_option g (map_of m k)"
  by (induction m) auto

lemma pushOrCreate_map:
  "pushOrCreate k (f r) (map (apsnd (map f)) m) = map (apsnd (map f)) (pushOrCreate k r m)"
proof -
  have "(case map_option (map f) (map_of m k) of None \<Rightarrow> [] | Some rs \<Rightarrow> rs) @ [f r] =
        map f ((case map_of m k of None \<Rightarrow> [] | Some rs \<Rightarrow> rs) @ [r])"
    by (cases "map_of m k") auto
  then show ?thesis
    unfolding pushOrCreate_def map_of_apsnd by (simp only: update_apsnd)
qed

lemma assignBySection_map:
  assumes "filePath (f r) = filePath r"
  shows "assignBySection options (map (apsnd (map f)) m) (f r) =
         map (apsnd (map f)) (assignBySection options m r)"
proof -
  have "generatorMatches (f r) = generatorMatches r"
    using assms by (auto simp: generatorMatches_def fun_eq_iff)
  then show ?thesis
    by (simp add: assignBySection_def pushOrCreate_map split: option.split)
qed

lemma foldl_assignBySection_map:
  assumes "\<And>r. filePath (f r) = filePath r"
  shows "foldl (assignBySection options) (map (apsnd (map f)) m) (map f routes) =
         map (apsnd (map f)) (foldl (assignBySection options) m routes)"
proof (induction routes arbitrary: m)
  case Nil
  then show ?case by simp
next
  case (Cons a routes)
  have "assignBySection options (map (apsnd (map f)) m) (f a) =
        map (apsnd (map f)) (assignBySection options m a)"
    by (rule assignBySection_map) (rule assms)
  with Cons.IH [of "assignBySection options m a"] show ?case by simp
qed

lemma update_values: "snd ` set (AList.update k v m) \<subseteq> insert v (snd ` set m)"
  by (induction m) auto

lemma initial_sections_empty:
  "snd ` set m \<subseteq> {[]} \<Longrightarrow>
   snd ` set (foldl (\<lambda>m source. AList.update (cs_section source) [] m) m srcs) \<subseteq> {[]}"
proof (induction srcs arbitrary: m)
  case Nil
  then show ?case by simp
next
  case (Cons s srcs)
  have "snd ` set (AList.update (cs_section s) [] m) \<subseteq> {[]}"
    using update_values [of "cs_section s" "[]" m] Cons.prems by blast
  from Cons.IH [OF this] show ?case by simp
qed

lemma map_apsnd_empty: "snd ` set m \<subseteq> {[]} \<Longrightarrow> map (apsnd (map f)) m = m"
  by (induction m) auto

lemma removeEmptySections_map:
  "removeEmptySections (map (apsnd (map f)) m) = map (apsnd (map f)) (removeEmptySections m)"
  by (induction m) (auto simp: removeEmptySections_def)

lemma groupBySection_map:
  assumes "\<And>r. filePath (f r) = filePath r"
  shows "groupBySection (map f routes) options = map (apsnd (map f)) (groupBySection routes options)"
proof -
  define m0 :: "(string \<times> routeInfo list) list" where "m0 = foldl (\<lambda>m source. AList.update (cs_section source) [] m) [] (sourcesOf options)"
  define m1 where "m1 = (if map_of m0 ''Pages'' = None then AList.update ''Pages'' [] m0 else m0)"
  have "snd ` set m0 \<subseteq> {[]}" unfolding m0_def by (rule initial_sections_empty) simp
  moreover have "snd ` set (AList.update ''Pages'' [] m0) \<subseteq> insert [] (snd ` set m0)"
    by (rule update_values)
  ultimately have u: "snd ` set (AList.update ''Pages'' [] m0) \<subseteq> {[]}" and v: "snd ` set m0 \<subseteq> {[]}"
    by blast+
  have "m1 = AList.update ''Pages'' [] m0 \<or> m1 = m0" by (simp add: m1_def)
  with u v have "snd ` set m1 \<subseteq> {[]}" by metis
  then have e: "map (apsnd (map f)) m1 = m1" by (rule map_apsnd_empty)
  have "groupBySection (map f routes) options =
          removeEmptySections (foldl (assignBySection options) (map (apsnd (map f)) m1) (map f routes))"
    unfolding e by (simp add: groupBySection_def m0_def m1_def Let_def)
  also have "\<dots> = map (apsnd (map f)) (removeEmptySections (foldl (assignBySection options) m1 routes))"
    by (simp only: foldl_assignBySection_map [OF assms] removeEmptySections_map)
  also have "\<dots> = map (apsnd (map f)) (groupBySection routes options)"
    by (simp add: groupBySection_def m0_def m1_def Let_def)
  finally show ?thesis .
qed

lemma fullRouteLines_withoutOrphanHeadings:
  "fullRouteLines h options (withoutOrphanHeadings r) = fullRouteLines h options r"
  by (simp add: fullRouteLines_def withoutOrphanHeadings_def getBestTitle_def getBestDescription_def
      metadataTitle_def openGraphOf_def Let_def)

lemma fullRouteLines_no_content:
  "\<not> truthy (content r) \<Longrightarrow>
   fullRouteLines h options r =
     [''### '' @ getBestTitle h r, [], ''URL: '' @ buildUrl (urlPath r) (siteUrl options), []] @
     (if truthy (getBestDescription r) then [the (getBestDescription r), []] else []) @ [''---'', []]"
  by (simp add: fullRouteLines_def Let_def)

lemma formatContentForLLM_no_content:
  "\<not> truthy (content r) \<Longrightarrow>
   formatContentForLLM r =
     join [newline, newline] (map headingLine (case headings r of None \<Rightarrow> [] | Some hs \<Rightarrow> hs))"
  by (auto simp: formatContentForLLM_def headingLine_def [abs_def] Let_def split: option.split)

lemma digest_withoutOrphanHeadings:
  "generateLLMsFullTxt h (map withoutOrphanHeadings routes) options = generateLLMsFullTxt h routes options"
proof -
  have g: "groupBySection (map withoutOrphanHeadings routes) options =
           map (apsnd (map withoutOrphanHeadings)) (groupBySection routes options)"
    by (rule groupBySection_map) (simp add: withoutOrphanHeadings_def)
  have s: "fullSectionLines h options (apsnd (map withoutOrphanHeadings) sec) = fullSectionLines h options sec" for sec
    by (cases sec) (simp add: fullSectionLines_def fullRouteLines_withoutOrphanHeadings comp_def)
  show ?thesis
    unfolding generateLLMsFullTxt_def g Let_def by (simp add: s comp_def)
qed

text \<open>
  C10. For a route without content the full digest pushes the title, the URL, the
  description when there is one, and the separator: no heading block, whatever the
  route's headings are, although \<open>formatContentForLLM\<close> alone returns the heading lines
  for such a route. The digest is the same when the headings of every content-less route
  are removed.
\<close>

theorem digest_omits_headings_without_content:
  "(\<not> truthy (content route) \<longrightarrow>
      fullRouteLines h options route =
        [''### '' @ getBestTitle h route, [], ''URL: '' @ buildUrl (urlPath route) (siteUrl options), []] @
        (if truthy (getBestDescription route) then [the (getBestDescription route), []] else []) @
        [''---'', []] \<and>
      formatContentForLLM route =
        join [newline, newline] (map headingLine (case headings route of None \<Rightarrow> [] | Some hs \<Rightarrow> hs))) \<and>
   generateLLMsFullTxt h (map withoutOrphanHeadings routes) options = generateLLMsFullTxt h routes options"
  using fullRouteLines_no_content [of route h options] formatContentForLLM_no_content [of route]
    digest_withoutOrphanHeadings [of h routes options]
  by blast

theorem digest_omits_headings_without_content_witness:
  "\<not> truthy (content ((exampleRoute ''/w/app/about/page.tsx'' ''/about'')\<lparr>headings := Some [\<lparr>level = 2, htext = ''Team''\<rparr>]\<rparr>)) \<and>
   fullRouteLines exampleHost exampleOptions
     ((exampleRoute ''/w/app/about/page.tsx'' ''/about'')\<lparr>headings := Some [\<lparr>level = 2, htext = ''Team''\<rparr>]\<rparr>)
     = [''### about'', [], ''URL: https://example.com/about'', [], ''---'', []] \<and>
   formatContentForLLM
     ((exampleRoute ''/w/app/about/page.tsx'' ''/about'')\<lparr>headings := Some [\<lparr>level = 2, htext = ''Team''\<rparr>]\<rparr>)
     = ''## Team'' \<and>
   generateLLMsFullTxt exampleHost
     [(exampleRoute ''/w/app/about/page.tsx'' ''/about'')\<lparr>headings := Some [\<lparr>level = 2, htext = ''Team''\<rparr>]\<rparr>]
     exampleOptions
   = generateLLMsFullTxt exampleHost [exampleRoute ''/w/app/about/page.tsx'' ''/about''] exampleOptions"
proof -
  let ?r = "(exampleRoute ''/w/app/about/page.tsx'' ''/about'')\<lparr>headings := Some [\<lparr>level = 2, htext = ''Team''\<rparr>]\<rparr>"
  have h1: "\<not> truthy (content ?r)" by (simp add: exampleRoute_def truthy_def)
  have w: "withoutOrphanHeadings ?r = exampleRoute ''/w/app/about/page.tsx'' ''/about''"
    by (simp add: withoutOrphanHeadings_def exampleRoute_def truthy_def)
  have t: "getBestTitle exampleHost ?r = ''about''" by code_simp
  have d: "getBestDescription ?r = None" by code_simp
  have u: "buildUrl (urlPath ?r) (siteUrl exampleOptions) = ''https://example.com/about''" by code_simp
  note inst = digest_omits_headings_without_content [of ?r exampleHost exampleOptions "[?r]"]
  from inst h1 have a: "fullRouteLines exampleHost exampleOptions ?r =
        [''### '' @ getBestTitle exampleHost ?r, [], ''URL: '' @ buildUrl (urlPath ?r) (siteUrl exampleOptions), []] @
        (if truthy (getBestDescription ?r) then [the (getBestDescription ?r), []] else []) @ [''---'', []]"
    and b: "formatContentForLLM ?r =
        join [newline, newline] (map headingLine (case headings ?r of None \<Rightarrow> [] | Some hs \<Rightarrow> hs))"
    by blast+
  from inst have c: "generateLLMsFullTxt exampleHost (map withoutOrphanHeadings [?r]) exampleOptions
       = generateLLMsFullTxt exampleHost [?r] exampleOptions" by blast
  have a': "fullRouteLines exampleHost exampleOptions ?r =
      [''### about'', [], ''URL: https://example.com/about'', [], ''---'', []]"
    unfolding a t d u by (simp add: truthy_def)
  have b': "formatContentForLLM ?r = ''## Team''"
    unfolding b by (simp add: exampleRoute_def headingLine_def numeral_2_eq_2)
  from c have c': "generateLLMsFullTxt exampleHost [?r] exampleOptions
       = generateLLMsFullTxt exampleHost [exampleRoute ''/w/app/about/page.tsx'' ''/about''] exampleOptions"
    by (simp add: w del: One_nat_def)
  show ?thesis using h1 a' b' c' by blast
qed


section \<open>Escaping in generated handlers\<close>

lemma replaceAll_matchChar:
  "replaceAll (matchChar x) s = concat (map (\<lambda>c. if c = x then [backslash, x] else [c]) s)"
  by (induction s) (auto simp: matchChar_def)

lemma escape_chars:
  "replaceAll (matchChar CHR ''$'') (replaceAll (matchChar backtick) (replaceAll (matchChar backslash) s)) =
   concat (map (\<lambda>c. if c = backslash \<or> c = backtick \<or> c = CHR ''$'' then [backslash, c] else [c]) s)"
  unfolding replaceAll_matchChar
  by (induction s) (auto simp: backslash_def backtick_def)

lemma special_chars:
  "backslash \<noteq> backtick" "backslash \<noteq> CHR ''$''" "backtick \<noteq> CHR ''$''"
  "backslash \<noteq> carriage_return" "backtick \<noteq> carriage_return" "CHR ''$'' \<noteq> carriage_return"
  by (simp_all add: backslash_def backtick_def carriage_return_def)

lemma escapeValue_special:
  "escapeValue backslash = Some [backslash]" "escapeValue backtick = Some [backtick]"
  "escapeValue CHR ''$'' = Some ''$''"
  by (simp_all add: escapeValue_def backslash_def backtick_def newline_def)

lemma cookTemplate_escape:
  assumes "escapeValue c = Some [c]" "c \<noteq> carriage_return"
  shows "cookTemplate (backslash # c # cs) = prepend [c] (cookTemplate cs)"
  using assms special_chars by (simp del: escapeValue_special)

lemma cookTemplate_plain:
  assumes "c \<noteq> backslash" "c \<noteq> backtick" "c \<noteq> CHR ''$''" "c \<noteq> carriage_return"
  shows "cookTemplate (c # cs) = prepend [c] (cookTemplate cs)"
proof (cases cs)
  case Nil
  with assms show ?thesis by (simp add: prepend_def)
next
  case (Cons d ds)
  with assms show ?thesis by simp
qed

lemma cookTemplate_escaped:
  "carriage_return \<notin> set s \<Longrightarrow>
   cookTemplate (concat (map (\<lambda>c. if c = backslash \<or> c = backtick \<or> c = CHR ''$'' then [backslash, c] else [c]) s))
     = Inr s"
proof (induction s)
  case Nil
  then show ?case by simp
next
  case (Cons c s)
  let ?e = "\<lambda>c. if c = backslash \<or> c = backtick \<or> c = CHR ''$'' then [backslash, c] else [c]"
  from Cons have IH: "cookTemplate (concat (map ?e s)) = Inr s" and c: "c \<noteq> carriage_return" by auto
  show ?case
  proof (cases "c = backslash \<or> c = backtick \<or> c = CHR ''$''")
    case True
    then have e: "escapeValue c = Some [c]" using escapeValue_special by auto
    have "concat (map ?e (c # s)) = backslash # c # concat (map ?e s)" using True by simp
    then show ?thesis
      by (simp only: cookTemplate_escape [OF e c] IH prepend_def sum.case append.simps)
  next
    case False
    then have "concat (map ?e (c # s)) = c # concat (map ?e s)" by simp
    moreover have "cookTemplate (c # concat (map ?e s)) = prepend [c] (cookTemplate (concat (map ?e s)))"
      using False c by (intro cookTemplate_plain) auto
    ultimately show ?thesis
      by (simp only: IH prepend_def sum.case append.simps)
  qed
qed

lemma handlerBody_wrap:
  "handlerBody ct (handlerHead @ body @ handlerTail ct) = body"
  by (simp add: handlerBody_def)

lemma createRouteHandlerContent_round_trip:
  "carriage_return \<notin> set s \<Longrightarrow>
   cookTemplate (handlerBody ''text/markdown; charset=utf-8'' (createRouteHandlerContent s)) = Inr s"
  unfolding createRouteHandlerContent_def Let_def handlerBody_wrap escape_chars
  by (rule cookTemplate_escaped)

lemma generateRouteHandlerFile_body:
  "handlerBody ''text/plain; charset=utf-8'' (generateRouteHandlerFile s) = replaceAll (matchChar backtick) s"
  unfolding generateRouteHandlerFile_def by (rule handlerBody_wrap)

lemma createRouteHandlerContent_body:
  "handlerBody ''text/markdown; charset=utf-8'' (createRouteHandlerContent s) =
   replaceAll (matchChar CHR ''$'') (replaceAll (matchChar backtick) (replaceAll (matchChar backslash) s))"
  unfolding createRouteHandlerContent_def Let_def by (rule handlerBody_wrap)

text \<open>
  C6. \<open>generateRouteHandlerFile\<close> escapes backticks only. A document text with a
  backslash is embedded as it is, and the template literal reads \<open>\n\<close> as a line feed; a
  text with \<open>${\<close> opens a substitution. \<open>createRouteHandlerContent\<close> escapes all three
  and gives both texts back.
\<close>

theorem generateRouteHandlerFile_escapes_backticks_only:
  "handlerBody ''text/plain; charset=utf-8'' (generateRouteHandlerFile (''C:'' @ [backslash] @ ''new''))
     = ''C:'' @ [backslash] @ ''new'' \<and>
   cookTemplate (handlerBody ''text/plain; charset=utf-8'' (generateRouteHandlerFile (''C:'' @ [backslash] @ ''new'')))
     = Inr (''C:'' @ [newline] @ ''ew'') \<and>
   cookTemplate (handlerBody ''text/plain; charset=utf-8'' (generateRouteHandlerFile ''Hello ${name}''))
     = Inl Substitution \<and>
   cookTemplate (handlerBody ''text/markdown; charset=utf-8'' (createRouteHandlerContent (''C:'' @ [backslash] @ ''new'')))
     = Inr (''C:'' @ [backslash] @ ''new'') \<and>
   cookTemplate (handlerBody ''text/markdown; charset=utf-8'' (createRouteHandlerContent ''Hello ${name}''))
     = Inr ''Hello ${name}''"
  unfolding generateRouteHandlerFile_body createRouteHandlerContent_body
  by code_simp

section \<open>Section grouping\<close>

text \<open>Buckets filled by a fold: every route goes to the end of the bucket its key names.\<close>

lemma bucket_fold:
  assumes step: "\<And>m r. f r \<in> fst ` set m \<Longrightarrow>
                   step m r = AList.update (f r) (the (map_of m (f r)) @ [r]) m"
  shows "\<forall>r\<in>set routes. f r \<in> fst ` set m0 \<Longrightarrow>
         map fst (foldl step m0 routes) = map fst m0 \<and>
         (\<forall>k. map_of (foldl step m0 routes) k =
               map_option (\<lambda>rs. rs @ filter (\<lambda>r. f r = k) routes) (map_of m0 k))"
proof (induction routes arbitrary: m0)
  case Nil
  then show ?case by (simp add: option.map_ident)
next
  case (Cons r routes)
  let ?m1 = "step m0 r"
  from Cons.prems have in0: "f r \<in> fst ` set m0" by simp
  then obtain old where old: "map_of m0 (f r) = Some old"
    by (metis domD dom_map_of_conv_image_fst)
  have m1: "?m1 = AList.update (f r) (old @ [r]) m0" using step [OF in0] old by simp
  have keys: "map fst ?m1 = map fst m0"
    unfolding m1 using in0 by (simp add: update_keys image_iff)
  then have "fst ` set ?m1 = fst ` set m0" by (metis list.set_map)
  with Cons.prems have "\<forall>r\<in>set routes. f r \<in> fst ` set ?m1" by simp
  from Cons.IH [OF this]
  have k: "map fst (foldl step ?m1 routes) = map fst ?m1"
    and v: "\<And>k. map_of (foldl step ?m1 routes) k =
               map_option (\<lambda>rs. rs @ filter (\<lambda>r. f r = k) routes) (map_of ?m1 k)"
    by blast+
  have "map_of (foldl step ?m1 routes) k =
          map_option (\<lambda>rs. rs @ filter (\<lambda>r. f r = k) (r # routes)) (map_of m0 k)" for k
    using v [of k] old by (cases "map_of m0 k") (auto simp: m1 update_conv')
  with k keys show ?case by simp
qed

lemma initial_sections:
  "distinct (map fst m) \<Longrightarrow> snd ` set m \<subseteq> {[]} \<Longrightarrow>
   distinct (map fst (foldl (\<lambda>m source. AList.update (cs_section source) [] m) m srcs)) \<and>
   snd ` set (foldl (\<lambda>m source. AList.update (cs_section source) [] m) m srcs) \<subseteq> {[]} \<and>
   fst ` set (foldl (\<lambda>m source. AList.update (cs_section source) [] m) m srcs) =
     fst ` set m \<union> cs_section ` set srcs"
proof (induction srcs arbitrary: m)
  case Nil
  then show ?case by simp
next
  case (Cons s srcs)
  let ?m = "AList.update (cs_section s) [] m"
  have d: "distinct (map fst ?m)" using Cons.prems(1) by (rule distinct_update)
  have e: "snd ` set ?m \<subseteq> {[]}"
    using update_values [of "cs_section s" "[]" m] Cons.prems(2) by blast
  from Cons.IH [OF d e] show ?case by (auto simp: dom_update)
qed

lemma sectionOf_in:
  "sectionOf matches srcs r \<in> insert ''Pages'' (cs_section ` set srcs)"
  by (auto simp: sectionOf_def find_Some_iff split: option.split)

lemma grouping_characterised:
  assumes step: "\<And>m r. S r \<in> fst ` set m \<Longrightarrow>
                   step m r = AList.update (S r) (the (map_of m (S r)) @ [r]) m"
    and d: "distinct (map fst m0)" and e: "snd ` set m0 \<subseteq> {[]}"
    and keys: "\<forall>r\<in>set routes. S r \<in> fst ` set m0"
  shows "distinct (map fst (removeEmptySections (foldl step m0 routes))) \<and>
         (\<forall>k rs. ((k, rs) \<in> set (removeEmptySections (foldl step m0 routes))) =
                  (rs \<noteq> [] \<and> rs = filter (\<lambda>r. S r = k) routes))"
proof -
  let ?m = "foldl step m0 routes"
  from bucket_fold [of S step, OF step keys]
  have k: "map fst ?m = map fst m0"
    and v: "\<And>k. map_of ?m k = map_option (\<lambda>rs. rs @ filter (\<lambda>r. S r = k) routes) (map_of m0 k)"
    by blast+
  have dm: "distinct (map fst ?m)" using k d by simp
  have d': "distinct (map fst (removeEmptySections ?m))"
    unfolding removeEmptySections_def using dm by (rule distinct_map_filter)
  have m0v: "map_of m0 k = Some [] \<or> map_of m0 k = None" for k
  proof (cases "map_of m0 k")
    case None
    then show ?thesis by simp
  next
    case (Some a)
    then have "(k, a) \<in> set m0" by (rule map_of_SomeD)
    with e have "a = []" by force
    with Some show ?thesis by simp
  qed
  have "((k, rs) \<in> set (removeEmptySections ?m)) = (rs \<noteq> [] \<and> rs = filter (\<lambda>r. S r = k) routes)" for k rs
  proof -
    have "((k, rs) \<in> set (removeEmptySections ?m)) = (map_of ?m k = Some rs \<and> rs \<noteq> [])"
      using dm by (auto simp: removeEmptySections_def)
    also have "\<dots> = (rs \<noteq> [] \<and> rs = filter (\<lambda>r. S r = k) routes)"
    proof (cases "map_of m0 k")
      case None
      then have "k \<notin> fst ` set m0" by (simp add: map_of_eq_None_iff)
      with keys have "filter (\<lambda>r. S r = k) routes = []" by (auto simp: filter_empty_conv)
      with None show ?thesis by (auto simp: v)
    next
      case (Some a)
      with m0v [of k] have "map_of m0 k = Some []" by simp
      then show ?thesis by (auto simp: v)
    qed
    finally show ?thesis .
  qed
  with d' show ?thesis by blast
qed


lemma assignRoute_step:
  assumes "sectionOf (scannerMatches h) (sourcesOf options) r \<in> fst ` set m"
  shows "assignRoute h options m r =
         AList.update (sectionOf (scannerMatches h) (sourcesOf options) r)
           (the (map_of m (sectionOf (scannerMatches h) (sourcesOf options) r)) @ [r]) m"
proof -
  from assms obtain old where "map_of m (sectionOf (scannerMatches h) (sourcesOf options) r) = Some old"
    by (metis domD dom_map_of_conv_image_fst)
  then show ?thesis
    by (auto simp: assignRoute_def sectionOf_def mapPush_def split: option.splits)
qed

lemma assignBySection_step:
  assumes "sectionOf generatorMatches (sourcesOf options) r \<in> fst ` set m"
  shows "assignBySection options m r =
         AList.update (sectionOf generatorMatches (sourcesOf options) r)
           (the (map_of m (sectionOf generatorMatches (sourcesOf options) r)) @ [r]) m"
proof -
  from assms obtain old where "map_of m (sectionOf generatorMatches (sourcesOf options) r) = Some old"
    by (metis domD dom_map_of_conv_image_fst)
  then show ?thesis
    by (auto simp: assignBySection_def sectionOf_def pushOrCreate_def split: option.splits)
qed

lemma groupRoutesBySection_characterised:
  "distinct (map fst (groupRoutesBySection h routes options)) \<and>
   (\<forall>k rs. ((k, rs) \<in> set (groupRoutesBySection h routes options)) =
      (rs \<noteq> [] \<and> rs = filter (\<lambda>r. sectionOf (scannerMatches h) (sourcesOf options) r = k) routes))"
proof -
  define m0 :: "(string \<times> routeInfo list) list" where
    "m0 = foldl (\<lambda>m source. AList.update (cs_section source) [] m) (AList.update ''Pages'' [] [])
            (sourcesOf options)"
  have i: "distinct (map fst m0) \<and> snd ` set m0 \<subseteq> {[]} \<and>
           fst ` set m0 = fst ` set (AList.update ''Pages'' ([] :: routeInfo list) []) \<union> cs_section ` set (sourcesOf options)"
    unfolding m0_def by (rule initial_sections) simp_all
  then have ks: "fst ` set m0 = insert ''Pages'' (cs_section ` set (sourcesOf options))" by simp
  have keys: "\<forall>r\<in>set routes. sectionOf (scannerMatches h) (sourcesOf options) r \<in> fst ` set m0"
    unfolding ks using sectionOf_in [of "scannerMatches h" "sourcesOf options"] by blast
  from i have d0: "distinct (map fst m0)" and e0: "snd ` set m0 \<subseteq> {[]}" by blast+
  have g: "groupRoutesBySection h routes options = removeEmptySections (foldl (assignRoute h options) m0 routes)"
    by (simp add: groupRoutesBySection_def m0_def Let_def)
  show ?thesis unfolding g
    by (rule grouping_characterised [OF assignRoute_step d0 e0 keys])
qed

lemma groupBySection_characterised:
  "distinct (map fst (groupBySection routes options)) \<and>
   (\<forall>k rs. ((k, rs) \<in> set (groupBySection routes options)) =
      (rs \<noteq> [] \<and> rs = filter (\<lambda>r. sectionOf generatorMatches (sourcesOf options) r = k) routes))"
proof -
  define m0 :: "(string \<times> routeInfo list) list" where
    "m0 = foldl (\<lambda>m source. AList.update (cs_section source) [] m) [] (sourcesOf options)"
  define m1 where "m1 = (if map_of m0 ''Pages'' = None then AList.update ''Pages'' [] m0 else m0)"
  have i: "distinct (map fst m0) \<and> snd ` set m0 \<subseteq> {[]} \<and>
           fst ` set m0 = fst ` set ([] :: (string \<times> routeInfo list) list) \<union> cs_section ` set (sourcesOf options)"
    unfolding m0_def by (rule initial_sections) simp_all
  from i have d0: "distinct (map fst m0)" and e0: "snd ` set m0 \<subseteq> {[]}"
    and k0: "fst ` set m0 = cs_section ` set (sourcesOf options)" by simp_all
  have u: "snd ` set (AList.update ''Pages'' [] m0) \<subseteq> {[]}"
    using update_values [of "''Pages''" "[]" m0] e0 by blast
  have c: "(map_of m0 ''Pages'' = None \<and> m1 = AList.update ''Pages'' [] m0) \<or>
           (''Pages'' \<in> fst ` set m0 \<and> m1 = m0)"
    by (cases "map_of m0 ''Pages''") (auto simp: m1_def dest: map_of_SomeD intro: rev_image_eqI)
  have d1: "distinct (map fst m1)" using c d0 distinct_update [OF d0, of "''Pages''" "[]"] by metis
  have e1: "snd ` set m1 \<subseteq> {[]}" using c e0 u by metis
  have "fst ` set (AList.update ''Pages'' ([] :: routeInfo list) m0) =
          insert ''Pages'' (cs_section ` set (sourcesOf options))"
    unfolding dom_update k0 by simp
  moreover have "''Pages'' \<in> fst ` set m0 \<Longrightarrow>
          fst ` set m0 = insert ''Pages'' (cs_section ` set (sourcesOf options))"
    unfolding k0 by blast
  ultimately have k1: "fst ` set m1 = insert ''Pages'' (cs_section ` set (sourcesOf options))"
    using c by metis
  have keys: "\<forall>r\<in>set routes. sectionOf generatorMatches (sourcesOf options) r \<in> fst ` set m1"
    unfolding k1 using sectionOf_in [of generatorMatches "sourcesOf options"] by blast
  have g: "groupBySection routes options = removeEmptySections (foldl (assignBySection options) m1 routes)"
    by (simp add: groupBySection_def m0_def m1_def Let_def)
  show ?thesis unfolding g
    by (rule grouping_characterised [OF assignBySection_step d1 e1 keys])
qed

lemma bucket_membership:
  fixes g :: "(string \<times> routeInfo list) list"
  assumes g: "\<forall>k rs. ((k, rs) \<in> set g) = (rs \<noteq> [] \<and> rs = filter (\<lambda>r. S r = k) routes)"
    and r: "r \<in> set routes"
  shows "(\<exists>rs. (S r, rs) \<in> set g \<and> r \<in> set rs) \<and>
         (\<forall>k rs. (k, rs) \<in> set g \<and> r \<in> set rs \<longrightarrow> k = S r)"
proof (rule conjI)
  let ?rs = "filter (\<lambda>x. S x = S r) routes"
  from r have m: "r \<in> set ?rs" by simp
  from r have "?rs \<noteq> []" by (auto simp: filter_empty_conv)
  then have "(S r, ?rs) \<in> set g" using g [rule_format, of "S r" ?rs] by simp
  with m show "\<exists>rs. (S r, rs) \<in> set g \<and> r \<in> set rs" by (intro exI [of _ ?rs] conjI)
  show "\<forall>k rs. (k, rs) \<in> set g \<and> r \<in> set rs \<longrightarrow> k = S r"
  proof (intro allI impI)
    fix k rs
    assume a: "(k, rs) \<in> set g \<and> r \<in> set rs"
    then have "(k, rs) \<in> set g" by (rule conjunct1)
    with g [rule_format, of k rs] have "rs \<noteq> [] \<and> rs = filter (\<lambda>r. S r = k) routes"
      by (rule iffD1)
    then have "rs = filter (\<lambda>r. S r = k) routes" by (rule conjunct2)
    moreover from a have "r \<in> set rs" by (rule conjunct2)
    ultimately have "r \<in> set (filter (\<lambda>r. S r = k) routes)" by (rule subst)
    then show "k = S r" by simp
  qed
qed

text \<open>
  C4. In the result of either grouping function the section names are distinct, and a
  section is present exactly when a route falls in it: its members are then the routes
  whose first matching source names that section (\<open>Pages\<close> for a route that matches no
  source), in their order. So every route is a member of the section of its first match
  and of no other, and no section of the result is empty.
\<close>

theorem grouping_by_first_match:
  "distinct (map fst (groupRoutesBySection h routes options)) \<and>
   (\<forall>k rs. ((k, rs) \<in> set (groupRoutesBySection h routes options)) =
      (rs \<noteq> [] \<and> rs = filter (\<lambda>r. sectionOf (scannerMatches h) (sourcesOf options) r = k) routes)) \<and>
   distinct (map fst (groupBySection routes options)) \<and>
   (\<forall>k rs. ((k, rs) \<in> set (groupBySection routes options)) =
      (rs \<noteq> [] \<and> rs = filter (\<lambda>r. sectionOf generatorMatches (sourcesOf options) r = k) routes)) \<and>
   (r \<in> set routes \<longrightarrow>
      (\<exists>rs. (sectionOf (scannerMatches h) (sourcesOf options) r, rs) \<in> set (groupRoutesBySection h routes options)
            \<and> r \<in> set rs) \<and>
      (\<forall>k rs. (k, rs) \<in> set (groupRoutesBySection h routes options) \<and> r \<in> set rs \<longrightarrow>
               k = sectionOf (scannerMatches h) (sourcesOf options) r) \<and>
      (\<exists>rs. (sectionOf generatorMatches (sourcesOf options) r, rs) \<in> set (groupBySection routes options)
            \<and> r \<in> set rs) \<and>
      (\<forall>k rs. (k, rs) \<in> set (groupBySection routes options) \<and> r \<in> set rs \<longrightarrow>
               k = sectionOf generatorMatches (sourcesOf options) r))"
proof -
  let ?g1 = "groupRoutesBySection h routes options"
  let ?S1 = "sectionOf (scannerMatches h) (sourcesOf options)"
  let ?g2 = "groupBySection routes options"
  let ?S2 = "sectionOf generatorMatches (sourcesOf options)"
  from groupRoutesBySection_characterised [of h routes options]
  have a1: "distinct (map fst ?g1)"
    and a2: "\<forall>k rs. ((k, rs) \<in> set ?g1) = (rs \<noteq> [] \<and> rs = filter (\<lambda>r. ?S1 r = k) routes)"
    by (rule conjunct1, rule conjunct2)
  from groupBySection_characterised [of routes options]
  have b1: "distinct (map fst ?g2)"
    and b2: "\<forall>k rs. ((k, rs) \<in> set ?g2) = (rs \<noteq> [] \<and> rs = filter (\<lambda>r. ?S2 r = k) routes)"
    by (rule conjunct1, rule conjunct2)
  show ?thesis
  proof (intro conjI impI)
    show "distinct (map fst ?g1)" by (rule a1)
    show "\<forall>k rs. ((k, rs) \<in> set ?g1) = (rs \<noteq> [] \<and> rs = filter (\<lambda>r. ?S1 r = k) routes)" by (rule a2)
    show "distinct (map fst ?g2)" by (rule b1)
    show "\<forall>k rs. ((k, rs) \<in> set ?g2) = (rs \<noteq> [] \<and> rs = filter (\<lambda>r. ?S2 r = k) routes)" by (rule b2)
  next
    assume r: "r \<in> set routes"
    show "\<exists>rs. (?S1 r, rs) \<in> set ?g1 \<and> r \<in> set rs"
      by (rule bucket_membership [OF a2 r, THEN conjunct1])
  next
    assume r: "r \<in> set routes"
    show "\<forall>k rs. (k, rs) \<in> set ?g1 \<and> r \<in> set rs \<longrightarrow> k = ?S1 r"
      by (rule bucket_membership [OF a2 r, THEN conjunct2])
  next
    assume r: "r \<in> set routes"
    show "\<exists>rs. (?S2 r, rs) \<in> set ?g2 \<and> r \<in> set rs"
      by (rule bucket_membership [OF b2 r, THEN conjunct1])
  next
    assume r: "r \<in> set routes"
    show "\<forall>k rs. (k, rs) \<in> set ?g2 \<and> r \<in> set rs \<longrightarrow> k = ?S2 r"
      by (rule bucket_membership [OF b2 r, THEN conjunct2])
  qed
qed

theorem grouping_by_first_match_witness:
  "exampleRoute ''/w/app/docs/z/page.tsx'' ''/docs/z'' \<in> set exampleRoutes \<and>
   (\<exists>rs. (''Docs'', rs) \<in> set (groupRoutesBySection exampleHost exampleRoutes exampleOptions) \<and>
         exampleRoute ''/w/app/docs/z/page.tsx'' ''/docs/z'' \<in> set rs) \<and>
   (\<exists>rs. (''Docs'', rs) \<in> set (groupBySection exampleRoutes exampleOptions) \<and>
         exampleRoute ''/w/app/docs/z/page.tsx'' ''/docs/z'' \<in> set rs) \<and>
   map (\<lambda>(k, rs). (k, map urlPath rs)) (groupRoutesBySection exampleHost exampleRoutes exampleOptions) =
     [(''Pages'', [''/'', ''/about'']), (''Docs'', [''/docs/z'', ''/docs/a'']), (''Blog'', [''/blog/b''])] \<and>
   map (\<lambda>(k, rs). (k, map urlPath rs)) (groupBySection exampleRoutes exampleOptions) =
     [(''Docs'', [''/docs/z'', ''/docs/a'']), (''Blog'', [''/blog/b'']), (''Pages'', [''/'', ''/about''])]"
proof -
  let ?r = "exampleRoute ''/w/app/docs/z/page.tsx'' ''/docs/z''"
  have h: "?r \<in> set exampleRoutes" by (simp add: exampleRoutes_def)
  have s: "sectionOf (scannerMatches exampleHost) (sourcesOf exampleOptions) ?r = ''Docs''"
    "sectionOf generatorMatches (sourcesOf exampleOptions) ?r = ''Docs''"
    by code_simp+
  have v: "map (\<lambda>(k, rs). (k, map urlPath rs)) (groupRoutesBySection exampleHost exampleRoutes exampleOptions) =
     [(''Pages'', [''/'', ''/about'']), (''Docs'', [''/docs/z'', ''/docs/a'']), (''Blog'', [''/blog/b''])]"
    "map (\<lambda>(k, rs). (k, map urlPath rs)) (groupBySection exampleRoutes exampleOptions) =
     [(''Docs'', [''/docs/z'', ''/docs/a'']), (''Blog'', [''/blog/b'']), (''Pages'', [''/'', ''/about''])]"
    by code_simp+
  note t = grouping_by_first_match [of exampleHost exampleRoutes exampleOptions ?r]
  note t5 = t [THEN conjunct2, THEN conjunct2, THEN conjunct2, THEN conjunct2, THEN mp, OF h]
  have "\<exists>rs. (sectionOf (scannerMatches exampleHost) (sourcesOf exampleOptions) ?r, rs)
                \<in> set (groupRoutesBySection exampleHost exampleRoutes exampleOptions) \<and> ?r \<in> set rs"
    and "\<exists>rs. (sectionOf generatorMatches (sourcesOf exampleOptions) ?r, rs)
                \<in> set (groupBySection exampleRoutes exampleOptions) \<and> ?r \<in> set rs"
    by (rule t5 [THEN conjunct1], rule t5 [THEN conjunct2, THEN conjunct2, THEN conjunct1])
  then have e: "\<exists>rs. (''Docs'', rs) \<in> set (groupRoutesBySection exampleHost exampleRoutes exampleOptions) \<and> ?r \<in> set rs"
    and f: "\<exists>rs. (''Docs'', rs) \<in> set (groupBySection exampleRoutes exampleOptions) \<and> ?r \<in> set rs"
    unfolding s by this+
  show ?thesis by (intro conjI h e f v)
qed

section \<open>Priority ordering\<close>

lemma insertSorted_set: "set (insertSorted cmp x ys) = insert x (set ys)"
  by (induction ys) auto

lemma insertSorted_mset: "mset (insertSorted cmp x ys) = add_mset x (mset ys)"
  by (induction ys) auto

lemma arraySort_mset: "mset (arraySort cmp xs) = mset xs"
  by (induction xs) (auto simp: insertSorted_mset)

lemma insertSorted_sorted:
  assumes c: "consistentCompare cmp"
  shows "sorted_wrt (\<lambda>a b. cmp a b \<le> 0) ys \<Longrightarrow> sorted_wrt (\<lambda>a b. cmp a b \<le> 0) (insertSorted cmp x ys)"
proof (induction ys)
  case Nil
  then show ?case by simp
next
  case (Cons y ys)
  from c have tr: "\<And>a b d. cmp a b \<le> 0 \<Longrightarrow> cmp b d \<le> 0 \<Longrightarrow> cmp a d \<le> 0"
    and sw: "\<And>a b. (cmp a b < 0) = (cmp b a > 0)"
    unfolding consistentCompare_def by blast+
  show ?case
  proof (cases "cmp x y \<le> 0")
    case True
    then have "\<forall>z\<in>set ys. cmp x z \<le> 0" using Cons.prems tr by auto
    with True Cons.prems show ?thesis by simp
  next
    case False
    then have "cmp y x < 0" using sw [of y x] by simp
    then have "cmp y x \<le> 0" by simp
    with False Cons show ?thesis by (simp add: insertSorted_set)
  qed
qed

lemma arraySort_sorted:
  "consistentCompare cmp \<Longrightarrow> sorted_wrt (\<lambda>a b. cmp a b \<le> 0) (arraySort cmp xs)"
  by (induction xs) (simp_all add: insertSorted_sorted)

lemma compareRoutes_le:
  "(compareRoutes h options a b \<le> 0) =
   (routePriority h options b < routePriority h options a \<or>
    (routePriority h options a = routePriority h options b \<and> localeCompare h (urlPath a) (urlPath b) \<le> 0))"
  by (auto simp: compareRoutes_def Let_def)

lemma compareRoutes_consistent:
  assumes "consistentCompare (localeCompare h)"
  shows "consistentCompare (compareRoutes h options)"
proof -
  from assms have rf: "\<And>a. localeCompare h a a = 0"
    and sw: "\<And>a b. (localeCompare h a b < 0) = (localeCompare h b a > 0)"
    and tr: "\<And>a b d. localeCompare h a b \<le> 0 \<Longrightarrow> localeCompare h b d \<le> 0 \<Longrightarrow> localeCompare h a d \<le> 0"
    unfolding consistentCompare_def by blast+
  have 1: "compareRoutes h options a a = 0" for a
    by (simp add: compareRoutes_def rf)
  have 2: "(compareRoutes h options a b < 0) = (compareRoutes h options b a > 0)" for a b
    using sw [of "urlPath a" "urlPath b"] by (auto simp: compareRoutes_def Let_def)
  have 3: "compareRoutes h options a d \<le> 0"
    if "compareRoutes h options a b \<le> 0" "compareRoutes h options b d \<le> 0" for a b d
    using that tr [of "urlPath a" "urlPath b" "urlPath d"] unfolding compareRoutes_le by auto
  show ?thesis unfolding consistentCompare_def using 1 2 3 by blast
qed

lemma foldl_last_match:
  "foldl (\<lambda>p s. if P s then g s else p) d srcs =
   (case find P (rev srcs) of None \<Rightarrow> d | Some s \<Rightarrow> g s)"
  by (induction srcs rule: rev_induct) auto

lemma routePriority_last_match:
  "routePriority h options r =
   (case find (scannerMatches h r) (rev (sourcesOf options)) of
      None \<Rightarrow> 2
    | Some s \<Rightarrow> priorityMap (case cs_priority s of None \<Rightarrow> Medium | Some p \<Rightarrow> p))"
  unfolding routePriority_def by (rule foldl_last_match)

lemma codeUnitCompare_refl: "codeUnitCompare a a = 0"
  by (induction a) auto

lemma codeUnitCompare_swap: "(codeUnitCompare a b < 0) = (codeUnitCompare b a > 0)"
  by (induction a b rule: codeUnitCompare.induct) auto

lemma codeUnitCompare_trans:
  "codeUnitCompare a b \<le> 0 \<Longrightarrow> codeUnitCompare b d \<le> 0 \<Longrightarrow> codeUnitCompare a d \<le> 0"
proof (induction a arbitrary: b d)
  case Nil
  then show ?case by (cases d) auto
next
  case (Cons x xs)
  from Cons.prems(1) obtain y ys where b: "b = y # ys" by (cases b) auto
  from Cons.prems(2) b obtain z zs where d: "d = z # zs" by (cases d) auto
  from Cons.prems b d have xy: "(of_char x :: nat) \<le> of_char y" and yz: "(of_char y :: nat) \<le> of_char z"
    by (auto split: if_splits)
  show ?case
  proof (cases "(of_char x :: nat) < of_char z")
    case True
    then show ?thesis by (simp add: d)
  next
    case False
    with xy yz have e: "(of_char x :: nat) = of_char y" "(of_char y :: nat) = of_char z" by linarith+
    then have e': "x = y" "y = z" by simp_all
    with Cons.prems b d have "codeUnitCompare xs ys \<le> 0" "codeUnitCompare ys zs \<le> 0" by auto
    from Cons.IH [OF this] e' show ?thesis by (simp add: d)
  qed
qed

lemma codeUnitCompare_consistent: "consistentCompare codeUnitCompare"
  unfolding consistentCompare_def
  using codeUnitCompare_refl codeUnitCompare_swap codeUnitCompare_trans by blast

text \<open>
  For a consistent collation \<open>localeCompare\<close>, sorting returns the same routes, every
  route of higher rank before every route of lower rank, and routes of equal rank in
  ascending order of URL path under that collation. The rank is the one the comparator
  computes: that of the last source whose pattern the route matches.
\<close>

lemma sortRoutesByPriority_order:
  "consistentCompare (localeCompare h) \<Longrightarrow>
   mset (sortRoutesByPriority h routes options) = mset routes \<and>
   sorted_wrt (\<lambda>a b. routePriority h options b < routePriority h options a \<or>
                     (routePriority h options a = routePriority h options b \<and>
                      localeCompare h (urlPath a) (urlPath b) \<le> 0))
     (sortRoutesByPriority h routes options) \<and>
   priorityMap High = 3 \<and> priorityMap Medium = 2 \<and> priorityMap Low = 1 \<and>
   routePriority h options r =
     (case find (scannerMatches h r) (rev (sourcesOf options)) of
        None \<Rightarrow> 2
      | Some s \<Rightarrow> priorityMap (case cs_priority s of None \<Rightarrow> Medium | Some p \<Rightarrow> p))"
proof -
  assume "consistentCompare (localeCompare h)"
  then have "consistentCompare (compareRoutes h options)" by (rule compareRoutes_consistent)
  then have "sorted_wrt (\<lambda>a b. compareRoutes h options a b \<le> 0) (sortRoutesByPriority h routes options)"
    unfolding sortRoutesByPriority_def by (rule arraySort_sorted)
  then have "sorted_wrt (\<lambda>a b. routePriority h options b < routePriority h options a \<or>
                     (routePriority h options a = routePriority h options b \<and>
                      localeCompare h (urlPath a) (urlPath b) \<le> 0))
     (sortRoutesByPriority h routes options)"
    unfolding compareRoutes_le .
  moreover have "mset (sortRoutesByPriority h routes options) = mset routes"
    unfolding sortRoutesByPriority_def by (rule arraySort_mset)
  ultimately show ?thesis
    using routePriority_last_match [of h options r] by (simp add: priorityMap_def)
qed

lemma sortRoutesByPriority_example:
  "map urlPath (sortRoutesByPriority exampleHost exampleRoutes exampleOptions) =
     [''/docs/a'', ''/docs/z'', ''/'', ''/about'', ''/blog/b''] \<and>
   mset (sortRoutesByPriority exampleHost exampleRoutes exampleOptions) = mset exampleRoutes \<and>
   sorted_wrt (\<lambda>a b. routePriority exampleHost exampleOptions b < routePriority exampleHost exampleOptions a \<or>
                     (routePriority exampleHost exampleOptions a = routePriority exampleHost exampleOptions b \<and>
                      localeCompare exampleHost (urlPath a) (urlPath b) \<le> 0))
     (sortRoutesByPriority exampleHost exampleRoutes exampleOptions) \<and>
   routePriority exampleHost exampleOptions (exampleRoute ''/w/app/docs/z/page.tsx'' ''/docs/z'') = 3 \<and>
   routePriority exampleHost exampleOptions (exampleRoute ''/w/app/about/page.tsx'' ''/about'') = 2 \<and>
   routePriority exampleHost exampleOptions (exampleRoute ''/w/app/blog/b/page.tsx'' ''/blog/b'') = 1"
proof -
  have c: "consistentCompare (localeCompare exampleHost)"
    using codeUnitCompare_consistent by (simp add: exampleHost_def)
  have v: "map urlPath (sortRoutesByPriority exampleHost exampleRoutes exampleOptions) =
     [''/docs/a'', ''/docs/z'', ''/'', ''/about'', ''/blog/b'']"
    by code_simp
  have p: "routePriority exampleHost exampleOptions (exampleRoute ''/w/app/docs/z/page.tsx'' ''/docs/z'') = 3"
    "routePriority exampleHost exampleOptions (exampleRoute ''/w/app/about/page.tsx'' ''/about'') = 2"
    "routePriority exampleHost exampleOptions (exampleRoute ''/w/app/blog/b/page.tsx'' ''/blog/b'') = 1"
    by code_simp+
  from sortRoutesByPriority_order [OF c, of exampleRoutes exampleOptions]
  show ?thesis using v p by blast
qed

text \<open>
  C2. With a source \<open>app/docs/**\<close> of high priority followed by a source
  \<open>app/docs/guides/**\<close> of low priority, a guide belongs to the section \<open>Docs\<close> and its
  first match ranks it high, 3; the comparator ranks it by its last match, 1, and sorting
  puts it after a route that matches no source and ranks medium.
\<close>

theorem sortRoutesByPriority_ranks_by_last_match:
  "sectionOf (scannerMatches (h\<lparr>cwd := ''/w'', minimatch := exampleGlob\<rparr>)) (sourcesOf overlappingOptions)
     (exampleRoute ''/w/app/docs/guides/intro/page.tsx'' ''/docs/guides/intro'') = ''Docs'' \<and>
   firstMatchPriority (h\<lparr>cwd := ''/w'', minimatch := exampleGlob\<rparr>) overlappingOptions
     (exampleRoute ''/w/app/docs/guides/intro/page.tsx'' ''/docs/guides/intro'') = 3 \<and>
   firstMatchPriority (h\<lparr>cwd := ''/w'', minimatch := exampleGlob\<rparr>) overlappingOptions
     (exampleRoute ''/w/app/about/page.tsx'' ''/about'') = 2 \<and>
   routePriority (h\<lparr>cwd := ''/w'', minimatch := exampleGlob\<rparr>) overlappingOptions
     (exampleRoute ''/w/app/docs/guides/intro/page.tsx'' ''/docs/guides/intro'') = 1 \<and>
   routePriority (h\<lparr>cwd := ''/w'', minimatch := exampleGlob\<rparr>) overlappingOptions
     (exampleRoute ''/w/app/about/page.tsx'' ''/about'') = 2 \<and>
   sortRoutesByPriority (h\<lparr>cwd := ''/w'', minimatch := exampleGlob\<rparr>)
     [exampleRoute ''/w/app/docs/guides/intro/page.tsx'' ''/docs/guides/intro'',
      exampleRoute ''/w/app/about/page.tsx'' ''/about''] overlappingOptions =
     [exampleRoute ''/w/app/about/page.tsx'' ''/about'',
      exampleRoute ''/w/app/docs/guides/intro/page.tsx'' ''/docs/guides/intro'']"
proof -
  let ?h = "h\<lparr>cwd := ''/w'', minimatch := exampleGlob\<rparr>"
  let ?guide = "exampleRoute ''/w/app/docs/guides/intro/page.tsx'' ''/docs/guides/intro''"
  let ?about = "exampleRoute ''/w/app/about/page.tsx'' ''/about''"
  let ?docs = "\<lparr>cs_section = ''Docs'', cs_pattern = ''app/docs/**'', cs_priority = Some High,
               cs_description = None\<rparr>"
  let ?guides = "\<lparr>cs_section = ''Guides'', cs_pattern = ''app/docs/guides/**'', cs_priority = Some Low,
               cs_description = None\<rparr>"
  have src: "sourcesOf overlappingOptions = [?docs, ?guides]"
    by (simp add: sourcesOf_def overlappingOptions_def exampleOptions_def)
  have rel: "relativeToCwd ?h ''/w/app/docs/guides/intro/page.tsx'' = ''app/docs/guides/intro/page.tsx''"
    "relativeToCwd ?h ''/w/app/about/page.tsx'' = ''app/about/page.tsx''"
    by (simp_all add: relativeToCwd_def stripLeadingSlash_def startsWith_def)
  have g: "exampleGlob ''app/docs/guides/intro/page.tsx'' ''app/docs/**''"
    "exampleGlob ''app/docs/guides/intro/page.tsx'' ''app/docs/guides/**''"
    "\<not> exampleGlob ''app/about/page.tsx'' ''app/docs/**''"
    "\<not> exampleGlob ''app/about/page.tsx'' ''**/app/docs/**''"
    "\<not> exampleGlob ''app/about/page.tsx'' ''app/docs/guides/**''"
    "\<not> exampleGlob ''app/about/page.tsx'' ''**/app/docs/guides/**''"
    by code_simp+
  have m: "scannerMatches ?h ?guide ?docs" "scannerMatches ?h ?guide ?guides"
    "\<not> scannerMatches ?h ?about ?docs" "\<not> scannerMatches ?h ?about ?guides"
    using g by (simp_all add: scannerMatches_def globMatch_def exampleRoute_def rel)
  have p: "routePriority ?h overlappingOptions ?guide = 1" "routePriority ?h overlappingOptions ?about = 2"
    unfolding routePriority_def src using m by (simp_all add: priorityMap_def)
  have f: "firstMatchPriority ?h overlappingOptions ?guide = 3"
    "firstMatchPriority ?h overlappingOptions ?about = 2"
    unfolding firstMatchPriority_def src using m by (simp_all add: priorityMap_def)
  have s: "sectionOf (scannerMatches ?h) (sourcesOf overlappingOptions) ?guide = ''Docs''"
    unfolding sectionOf_def src using m by simp
  have c: "compareRoutes ?h overlappingOptions ?guide ?about = 1"
    unfolding compareRoutes_def p by simp
  have "sortRoutesByPriority ?h [?guide, ?about] overlappingOptions = [?about, ?guide]"
    unfolding sortRoutesByPriority_def by (simp add: c)
  with s f p show ?thesis by (intro conjI)
qed

end
